theory Spec2Isabelle
  imports Complex_Main
begin

section \<open>Weight boosting (sklearn/ensemble/weight\_boosting.py)\<close>

text \<open>
  A shallow embedding of \<^verbatim>\<open>BaseWeightBoosting\<close>, \<^verbatim>\<open>AdaBoostClassifier\<close> and
  \<^verbatim>\<open>AdaBoostRegressor\<close>.

  Numbers. The source computes in IEEE double precision; the embedding computes in
  the exact reals (\<^typ>\<open>real\<close>). Rounding is therefore outside the model, and so are
  numpy's non-finite values: where numpy divides a float array by zero it produces
  \<^verbatim>\<open>inf\<close> or \<^verbatim>\<open>nan\<close> and goes on, while \<open>x / 0 = 0\<close> in HOL.
  \<^item> Where \<^verbatim>\<open>fit\<close> or a booster would go on with such values (the supplied sample
    weights sum to zero, the cumulative distribution of the regressor ends in
    zero), the model stops with the outcome \<open>NonFinite\<close>.
  \<^item> Where a result is only stored or returned (the feature importances and the
    decision function, divided by a sum of estimator weights), the model keeps
    HOL's quotient; it stands for whatever numpy computes there, and no branch of
    the program depends on it.
  \<^item> Divisions of Python scalars (\<^verbatim>\<open>1. / n\<close> with \<^verbatim>\<open>n\<close> a Python int) raise
    \<^verbatim>\<open>ZeroDivisionError\<close>, and that is a branch of the model.

  Arrays are lists; a matrix is the list of its rows (one row per sample). Arrays
  that the source combines elementwise have the same shape (there is one sample
  weight per sample); numpy's broadcasting of other shapes is not modelled.
\<close>

subsection \<open>Exceptions\<close>

text \<open>
  The Python exceptions the module raises or lets through. In the words of the
  specification \<open>ValueError\<close> is \<open>InvalidArgument\<close>, \<open>RuntimeError\<close> (the
  "is not initialized. Perform a fit first" error) is \<open>NotFitted\<close>, and
  \<open>AttributeError\<close> is \<open>UnsupportedCapability\<close>. \<open>LearnerError\<close> stands for
  whatever a weak learner's \<^verbatim>\<open>fit\<close> raises. \<open>NonFinite\<close> is not an exception: it
  marks the places where the program goes on with \<^verbatim>\<open>inf\<close> or \<^verbatim>\<open>nan\<close>, which the
  model does not follow.
\<close>

datatype error =
    ValueError
  | TypeError
  | AttributeError
  | RuntimeError
  | ZeroDivisionError
  | IndexError
  | LearnerError
  | NonFinite

subsection \<open>The weak learner contract\<close>

text \<open>
  The base estimator is an external collaborator. \<open>'m\<close> is the type of an estimator
  object (a clone of the base estimator, fitted or not), \<open>'x\<close> the type of one row of
  \<^verbatim>\<open>X\<close>, \<open>'y\<close> the type of a target (a class label, or \<^typ>\<open>real\<close> in regression).
  \<^verbatim>\<open>estimator.fit(X, y, sample_weight=w)\<close> mutates the estimator and returns it:
  \<open>wl_fit\<close> returns the fitted estimator or the exception raised; the regressor
  calls \<^verbatim>\<open>fit\<close> with no sample weights (\<open>None\<close>). A scikit-learn estimator
  predicts each row of \<^verbatim>\<open>X\<close> on its own: \<open>wl_predict\<close> is the prediction for one
  row, and \<^verbatim>\<open>estimator.predict(X)\<close> maps it over the rows. \<open>wl_predict_proba\<close> is
  the \<^verbatim>\<open>predict_proba\<close> method, \<open>None\<close> when the estimator class has no such method
  (\<^verbatim>\<open>hasattr\<close> is false and a call raises \<open>AttributeError\<close>); for one row it
  returns the row of class probabilities, one per class. \<open>wl_classes\<close> is the \<^verbatim>\<open>classes_\<close> attribute of
  a fitted classifier and \<open>wl_feature_importances\<close> its \<^verbatim>\<open>feature_importances_\<close>
  attribute (\<open>None\<close> when the attribute is missing). \<open>wl_set_params\<close> is the call
  \<^verbatim>\<open>set_params(compute_importances=True)\<close>, which reconfigures the estimator in
  place or raises (scikit-learn raises \<open>ValueError\<close> for a parameter the estimator
  does not have). \<open>wl_is_classifier\<close> and
  \<open>wl_is_regressor\<close> are the \<^verbatim>\<open>isinstance\<close> tests against \<^verbatim>\<open>ClassifierMixin\<close> and
  \<^verbatim>\<open>RegressorMixin\<close>.
\<close>

record ('m, 'x, 'y) weak_learner =
  wl_fit :: "'m \<Rightarrow> 'x list \<Rightarrow> 'y list \<Rightarrow> real list option \<Rightarrow> error + 'm"
  wl_predict :: "'m \<Rightarrow> 'x \<Rightarrow> 'y"
  wl_predict_proba :: "('m \<Rightarrow> 'x \<Rightarrow> real list) option"
  wl_classes :: "'m \<Rightarrow> 'y list"
  wl_feature_importances :: "'m \<Rightarrow> real list option"
  wl_set_params :: "'m \<Rightarrow> error + 'm"
  wl_is_classifier :: bool
  wl_is_regressor :: bool

subsection \<open>BaseWeightBoosting\<close>

text \<open>
  The attributes of an estimator object on which \<^verbatim>\<open>fit\<close> can be called.
  \<open>n_estimators\<close> is a natural number (the source builds arrays of that length).
\<close>

record 'm weight_boosting =
  base_estimator :: 'm
  n_estimators :: nat
  learning_rate :: real
  compute_importances :: bool
  estimators :: "'m list"
  estimator_weights :: "real list"
  estimator_errors :: "real list"
  feature_importances :: "real list option"

text \<open>
  Modelled from the spec: \<^verbatim>\<open>BaseEnsemble._make_estimator\<close> (sklearn/ensemble/base.py)
  is not among the sources. The boosters rely on it to record the new learner in the
  ensemble before it is fitted (they \<^verbatim>\<open>pop\<close> it again to discard it; the
  specification speaks of "the just-attempted member, if partially recorded by the
  Booster"): it appends a clone of the base estimator to \<^verbatim>\<open>estimators_\<close> and
  returns it.
\<close>

definition make_estimator ::
  "('m, 'z) weight_boosting_scheme \<Rightarrow> 'm \<times> ('m, 'z) weight_boosting_scheme" where
  "make_estimator st =
     (base_estimator st, st\<lparr>estimators := estimators st @ [base_estimator st]\<rparr>)"

text \<open>
  \<^verbatim>\<open>estimator.fit(...)\<close> fits in place the object that \<^verbatim>\<open>estimators_\<close> already holds
  as its last element.
\<close>

definition store_fitted ::
  "'m \<Rightarrow> ('m, 'z) weight_boosting_scheme \<Rightarrow> ('m, 'z) weight_boosting_scheme" where
  "store_fitted m st = st\<lparr>estimators := butlast (estimators st) @ [m]\<rparr>"

text \<open>\<^verbatim>\<open>self.estimators_.pop(-1)\<close>; the list is never empty where the source pops.\<close>

definition pop_estimator ::
  "('m, 'z) weight_boosting_scheme \<Rightarrow> ('m, 'z) weight_boosting_scheme" where
  "pop_estimator st = st\<lparr>estimators := butlast (estimators st)\<rparr>"

text \<open>
  Modelled from the spec: \<^verbatim>\<open>check_arrays\<close> (sklearn/utils) is not among the sources;
  "X and y have matching sample counts" is the precondition it enforces.
\<close>

definition check_arrays :: "'x list \<Rightarrow> 'y list \<Rightarrow> error + unit" where
  "check_arrays X y = (if length X = length y then Inr () else Inl ValueError)"

text \<open>
  Lines 98--110 of \<^verbatim>\<open>fit\<close>: the initial sample weights. The supplied weights are
  divided by their sum first, and the test for a non-positive sum is made on the
  result. For non-empty weights with sum zero the quotients are \<^verbatim>\<open>nan\<close> or
  infinite, their sum is \<^verbatim>\<open>nan\<close>, the test is false and nothing is raised: the
  result \<open>NonFinite\<close> stands for these weights, which the reals cannot express.
\<close>

definition init_sample_weight :: "nat \<Rightarrow> real list option \<Rightarrow> error + real list" where
  "init_sample_weight n sample_weight =
     (case sample_weight of
        None \<Rightarrow>
          if n = 0 then Inl ZeroDivisionError
          else Inr (replicate n (1 / real n))
      | Some sw \<Rightarrow>
          if sw \<noteq> [] \<and> sum_list sw = 0 then Inl NonFinite
          else (let normed = map (\<lambda>w. w / sum_list sw) sw
                in if sum_list normed \<le> 0 then Inl ValueError else Inr normed))"

text \<open>
  What \<^verbatim>\<open>_boost\<close> returns: \<open>None\<close> is the triple \<^verbatim>\<open>(None, None, None)\<close>, the
  early-termination sentinel; otherwise the new sample weights, the estimator
  weight and the estimator error.
\<close>

type_synonym boost_result = "(real list \<times> real \<times> real) option"

text \<open>
  One pass through the body of the loop of \<^verbatim>\<open>fit\<close> (lines 118--143), for the
  abstract method \<open>boost\<close>. The result is the exception raised, or \<open>None\<close> when
  the loop is left by \<^verbatim>\<open>break\<close>, or the sample weights for the next pass.
\<close>

definition boost_iteration ::
  "(nat \<Rightarrow> 'x list \<Rightarrow> 'y list \<Rightarrow> real list \<Rightarrow> ('m, 'z) weight_boosting_scheme
      \<Rightarrow> (error + boost_result) \<times> ('m, 'z) weight_boosting_scheme)
   \<Rightarrow> nat \<Rightarrow> 'x list \<Rightarrow> 'y list \<Rightarrow> real list \<Rightarrow> ('m, 'z) weight_boosting_scheme
   \<Rightarrow> (error + real list option) \<times> ('m, 'z) weight_boosting_scheme" where
  "boost_iteration boost iboost X y sample_weight st =
     (case boost iboost X y sample_weight st of
        (Inl e, st1) \<Rightarrow> (Inl e, st1)
      | (Inr None, st1) \<Rightarrow> (Inr None, st1)
      | (Inr (Some (sample_weight1, estimator_weight, estimator_error)), st1) \<Rightarrow>
          (let st2 = st1\<lparr>estimator_weights :=
                           (estimator_weights st1)[iboost := estimator_weight],
                         estimator_errors :=
                           (estimator_errors st1)[iboost := estimator_error]\<rparr>
           in if estimator_error = 0 then (Inr None, st2)
              else (let sample_weight_sum = sum_list sample_weight1
                    in if sample_weight_sum \<le> 0 then (Inr None, st2)
                       else if iboost < n_estimators st2 - 1
                            then (Inr (Some (map (\<lambda>w. w / sample_weight_sum) sample_weight1)), st2)
                            else (Inr (Some sample_weight1), st2))))"

text \<open>\<^verbatim>\<open>for iboost in xrange(self.n_estimators)\<close>, over the list of the indices left.\<close>

fun boost_loop ::
  "(nat \<Rightarrow> 'x list \<Rightarrow> 'y list \<Rightarrow> real list \<Rightarrow> ('m, 'z) weight_boosting_scheme
      \<Rightarrow> (error + boost_result) \<times> ('m, 'z) weight_boosting_scheme)
   \<Rightarrow> nat list \<Rightarrow> 'x list \<Rightarrow> 'y list \<Rightarrow> real list \<Rightarrow> ('m, 'z) weight_boosting_scheme
   \<Rightarrow> (error + unit) \<times> ('m, 'z) weight_boosting_scheme" where
  "boost_loop boost [] X y sample_weight st = (Inr (), st)"
| "boost_loop boost (iboost # rest) X y sample_weight st =
     (case boost_iteration boost iboost X y sample_weight st of
        (Inl e, st1) \<Rightarrow> (Inl e, st1)
      | (Inr None, st1) \<Rightarrow> (Inr (), st1)
      | (Inr (Some sample_weight1), st1) \<Rightarrow> boost_loop boost rest X y sample_weight1 st1)"

text \<open>
  Lines 145--158 of \<^verbatim>\<open>fit\<close>: the weighted average of the members' feature
  importances. The generator raises \<open>AttributeError\<close> at the first member without
  the attribute. Python's \<^verbatim>\<open>sum\<close> starts from the scalar \<open>0\<close>; for an empty
  ensemble the model writes that scalar as the empty vector.
\<close>

definition add_vectors :: "real list \<Rightarrow> real list \<Rightarrow> real list" where
  "add_vectors a b = map2 (+) a b"

fun sum_vectors :: "real list list \<Rightarrow> real list" where
  "sum_vectors [] = []"
| "sum_vectors [v] = v"
| "sum_vectors (v # u # vs) = sum_vectors (add_vectors v u # vs)"

definition sum_importances ::
  "('m, 'x, 'y) weak_learner \<Rightarrow> ('m, 'z) weight_boosting_scheme
   \<Rightarrow> (error + unit) \<times> ('m, 'z) weight_boosting_scheme" where
  "sum_importances L st =
     (if compute_importances st
      then (let norm = sum_list (estimator_weights st);
                members = zip (estimator_weights st) (estimators st)
            in if list_ex (\<lambda>(weight, clf). wl_feature_importances L clf = None) members
               then (Inl AttributeError, st)
               else (Inr (),
                     st\<lparr>feature_importances :=
                          Some (map (\<lambda>v. v / norm)
                            (sum_vectors
                               (map (\<lambda>(weight, clf).
                                       map (\<lambda>v. weight * v) (the (wl_feature_importances L clf)))
                                  members)))\<rparr>))
      else (Inr (), st))"

text \<open>
  Lines 92--93 of \<^verbatim>\<open>fit\<close>: with \<^verbatim>\<open>compute_importances\<close> set, the base estimator
  is reconfigured in place by \<^verbatim>\<open>set_params(compute_importances=True)\<close>, which can
  raise.
\<close>

definition set_importance_param ::
  "('m, 'x, 'y) weak_learner \<Rightarrow> ('m, 'z) weight_boosting_scheme
   \<Rightarrow> error + ('m, 'z) weight_boosting_scheme" where
  "set_importance_param L st =
     (if compute_importances st
      then (case wl_set_params L (base_estimator st) of
              Inl e \<Rightarrow> Inl e
            | Inr estimator \<Rightarrow> Inr (st\<lparr>base_estimator := estimator\<rparr>))
      else Inr st)"

text \<open>
  \<^verbatim>\<open>BaseWeightBoosting.fit\<close>. An exception leaves \<^verbatim>\<open>self\<close> as it was mutated up
  to the raise, so the state is returned in both cases. When the supplied sample
  weights are not empty and sum to zero no exception is raised: the previous
  results are cleared (lines 112--115) and the loop is entered with weights that are
  \<^verbatim>\<open>nan\<close> or infinite. The model follows the program up to the loop and stops
  there, with the outcome \<open>NonFinite\<close> and the state the program has at that
  point; what the program does after it is not modelled.
\<close>

definition fit ::
  "(nat \<Rightarrow> 'x list \<Rightarrow> 'y list \<Rightarrow> real list \<Rightarrow> ('m, 'z) weight_boosting_scheme
      \<Rightarrow> (error + boost_result) \<times> ('m, 'z) weight_boosting_scheme)
   \<Rightarrow> ('m, 'x, 'y) weak_learner
   \<Rightarrow> 'x list \<Rightarrow> 'y list \<Rightarrow> real list option \<Rightarrow> ('m, 'z) weight_boosting_scheme
   \<Rightarrow> (error + unit) \<times> ('m, 'z) weight_boosting_scheme" where
  "fit boost L X y sample_weight st =
     (if learning_rate st \<le> 0 then (Inl ValueError, st)
      else case set_importance_param L st of
        Inl e \<Rightarrow> (Inl e, st)
      | Inr st0 \<Rightarrow>
         (case check_arrays X y of
            Inl e \<Rightarrow> (Inl e, st0)
          | Inr _ \<Rightarrow>
             (let st1 = st0\<lparr>estimators := [],
                             estimator_weights := replicate (n_estimators st0) 0,
                             estimator_errors := replicate (n_estimators st0) 1\<rparr>
              in case init_sample_weight (length X) sample_weight of
                   Inl e \<Rightarrow> if e = NonFinite then (Inl NonFinite, st1) else (Inl e, st0)
                 | Inr sample_weight0 \<Rightarrow>
                    (case boost_loop boost [0..<n_estimators st1] X y sample_weight0 st1 of
                       (Inl e, st2) \<Rightarrow> (Inl e, st2)
                     | (Inr _, st2) \<Rightarrow> sum_importances L st2))))"

subsection \<open>numpy helpers\<close>

text \<open>The first exception of a sequence of results, or all the values.\<close>

primrec collect :: "(error + 'a) list \<Rightarrow> error + 'a list" where
  "collect [] = Inr []"
| "collect (r # rs) =
     (case r of
        Inl e \<Rightarrow> Inl e
      | Inr v \<Rightarrow> (case collect rs of Inl e \<Rightarrow> Inl e | Inr vs \<Rightarrow> Inr (v # vs)))"

text \<open>\<^verbatim>\<open>a.take(i)\<close> for one index: \<open>IndexError\<close> out of range.\<close>

definition take_at :: "'a list \<Rightarrow> nat \<Rightarrow> error + 'a" where
  "take_at xs i = (if i < length xs then Inr (xs ! i) else Inl IndexError)"

text \<open>
  \<^verbatim>\<open>np.argmax\<close> of one row: the index of the first occurrence of the maximum;
  \<open>ValueError\<close> on an empty row.
\<close>

fun argmax_from :: "nat \<Rightarrow> real \<Rightarrow> nat \<Rightarrow> real list \<Rightarrow> nat" where
  "argmax_from best_i best i [] = best_i"
| "argmax_from best_i best i (v # vs) =
     (if best < v then argmax_from i v (Suc i) vs else argmax_from best_i best (Suc i) vs)"

definition argmax :: "real list \<Rightarrow> error + nat" where
  "argmax row = (case row of [] \<Rightarrow> Inl ValueError | v # vs \<Rightarrow> Inr (argmax_from 0 v 1 vs))"

text \<open>
  \<^verbatim>\<open>np.average(a, weights=w, axis=0)\<close> for a one-dimensional boolean \<^verbatim>\<open>a\<close>:
  \<open>TypeError\<close> when the shapes differ, \<open>ZeroDivisionError\<close> when the weights sum
  to zero. (\<^verbatim>\<open>np.mean\<close> of the resulting scalar is that scalar.)
\<close>

definition average :: "bool list \<Rightarrow> real list \<Rightarrow> error + real" where
  "average a weights =
     (if length a \<noteq> length weights then Inl TypeError
      else (let scl = sum_list weights
            in if scl = 0 then Inl ZeroDivisionError
               else Inr (sum_list (map2 (\<lambda>b w. of_bool b * w) a weights) / scl)))"

text \<open>\<^verbatim>\<open>inner1d\<close>: the inner product of two rows.\<close>

definition inner1d :: "real list \<Rightarrow> real list \<Rightarrow> real" where
  "inner1d a b = sum_list (map2 (*) a b)"

text \<open>\<^verbatim>\<open>proba[proba <= 0] = 1e-5\<close>, on one entry.\<close>

definition displace :: "real \<Rightarrow> real" where
  "displace p = (if p \<le> 0 then 1 / 100000 else p)"

text \<open>Elementwise sum of two matrices of the same shape.\<close>

definition add_matrices :: "real list list \<Rightarrow> real list list \<Rightarrow> real list list" where
  "add_matrices a b = map2 (map2 (+)) a b"

subsection \<open>AdaBoostClassifier\<close>

record ('m, 'c) ada_boost_classifier = "'m weight_boosting" +
  algorithm :: string
  classes :: "'c list"
  n_classes :: nat

text \<open>
  \<^verbatim>\<open>_samme_proba\<close>. \<^verbatim>\<open>n_classes\<close> is a Python int: \<^verbatim>\<open>1. / n_classes\<close> raises
  for zero.
\<close>

definition samme_proba ::
  "('m, 'x, 'c) weak_learner \<Rightarrow> 'm \<Rightarrow> nat \<Rightarrow> 'x list \<Rightarrow> error + real list list" where
  "samme_proba L estimator n_cls X =
     (case wl_predict_proba L of
        None \<Rightarrow> Inl AttributeError
      | Some predict_proba_wl \<Rightarrow>
          (let proba = map (map displace) (map (predict_proba_wl estimator) X);
               log_proba = map (map ln) proba
           in if n_cls = 0 then Inl ZeroDivisionError
              else Inr (map (\<lambda>row. map (\<lambda>l. (real n_cls - 1)
                                              * (l - (1 / real n_cls) * sum_list row)) row)
                          log_proba)))"

text \<open>
  The first lines shared by both boosters: make the estimator, fit it on the
  weighted sample, and on the first iteration take the classes from it.
\<close>

definition set_classes ::
  "('m, 'x, 'c) weak_learner \<Rightarrow> nat \<Rightarrow> 'm
   \<Rightarrow> ('m, 'c, 'z) ada_boost_classifier_scheme \<Rightarrow> ('m, 'c, 'z) ada_boost_classifier_scheme" where
  "set_classes L iboost estimator st =
     (if iboost = 0
      then st\<lparr>classes := wl_classes L estimator,
              n_classes := length (wl_classes L estimator)\<rparr>
      else st)"

text \<open>\<^verbatim>\<open>_boost_discrete\<close>: one boost of the SAMME discrete algorithm.\<close>

definition boost_discrete ::
  "('m, 'x, 'c) weak_learner \<Rightarrow> nat \<Rightarrow> 'x list \<Rightarrow> 'c list \<Rightarrow> real list
   \<Rightarrow> ('m, 'c, 'z) ada_boost_classifier_scheme
   \<Rightarrow> (error + boost_result) \<times> ('m, 'c, 'z) ada_boost_classifier_scheme" where
  "boost_discrete L iboost X y sample_weight st =
     (case make_estimator st of (estimator0, st1) \<Rightarrow>
      (case wl_fit L estimator0 X y (Some sample_weight) of
         Inl e \<Rightarrow> (Inl e, st1)
       | Inr estimator \<Rightarrow>
          (let st2 = store_fitted estimator st1;
               y_predict = map (wl_predict L estimator) X;
               st3 = set_classes L iboost estimator st2;
               incorrect = map2 (\<lambda>p t. p \<noteq> t) y_predict y
           in case average incorrect sample_weight of
                Inl e \<Rightarrow> (Inl e, st3)
              | Inr estimator_error \<Rightarrow>
                  if estimator_error \<le> 0 then (Inr (Some (sample_weight, 1, 0)), st3)
                  else if n_classes st3 = 0 then (Inl ZeroDivisionError, st3)
                  else if estimator_error \<ge> 1 - 1 / real (n_classes st3)
                  then (Inr None, pop_estimator st3)
                  else (let estimator_weight =
                              learning_rate st3
                                * (ln ((1 - estimator_error) / estimator_error)
                                   + ln (real (n_classes st3) - 1))
                        in if iboost \<noteq> n_estimators st3 - 1
                           then (Inr (Some
                                  (map2 (\<lambda>w inc. w * exp (estimator_weight * of_bool inc
                                             * of_bool (w > 0 \<or> estimator_weight < 0)))
                                     sample_weight incorrect,
                                   estimator_weight, estimator_error)), st3)
                           else (Inr (Some (sample_weight, estimator_weight, estimator_error)),
                                 st3)))))"

text \<open>\<^verbatim>\<open>_boost_real\<close>: one boost of the SAMME.R real algorithm.\<close>

definition boost_real ::
  "('m, 'x, 'c) weak_learner \<Rightarrow> nat \<Rightarrow> 'x list \<Rightarrow> 'c list \<Rightarrow> real list
   \<Rightarrow> ('m, 'c, 'z) ada_boost_classifier_scheme
   \<Rightarrow> (error + boost_result) \<times> ('m, 'c, 'z) ada_boost_classifier_scheme" where
  "boost_real L iboost X y sample_weight st =
     (case make_estimator st of (estimator0, st1) \<Rightarrow>
      (case wl_fit L estimator0 X y (Some sample_weight) of
         Inl e \<Rightarrow> (Inl e, st1)
       | Inr estimator \<Rightarrow>
          (let st2 = store_fitted estimator st1
           in case wl_predict_proba L of
                None \<Rightarrow> (Inl AttributeError, st2)
              | Some predict_proba_wl \<Rightarrow>
                 (let y_predict_proba = map (predict_proba_wl estimator) X;
                      st3 = set_classes L iboost estimator st2
                  in case collect (map argmax y_predict_proba) of
                       Inl e \<Rightarrow> (Inl e, st3)
                     | Inr best \<Rightarrow>
                        (case collect (map (take_at (classes st3)) best) of
                           Inl e \<Rightarrow> (Inl e, st3)
                         | Inr y_predict \<Rightarrow>
                            (let incorrect = map2 (\<lambda>p t. p \<noteq> t) y_predict y
                             in case average incorrect sample_weight of
                                  Inl e \<Rightarrow> (Inl e, st3)
                                | Inr estimator_error \<Rightarrow>
                                   if estimator_error \<le> 0
                                   then (Inr (Some (sample_weight, 1, 0)), st3)
                                   else if n_classes st3 = 1 \<or> n_classes st3 = 0
                                   then (Inl ZeroDivisionError, st3)
                                   else
                                    (let n_cls = real (n_classes st3);
                                         y_coding = map (\<lambda>t. map (\<lambda>c. if c = t then 1
                                                                    else - 1 / (n_cls - 1))
                                                              (classes st3)) y;
                                         log_proba = map (map (\<lambda>p. ln (displace p)))
                                                       y_predict_proba;
                                         estimator_weight =
                                           map2 (\<lambda>code lp. - 1 * learning_rate st3
                                                   * (((n_cls - 1) / n_cls) * inner1d code lp))
                                             y_coding log_proba
                                     in if iboost \<noteq> n_estimators st3 - 1
                                        then (Inr (Some
                                               (map2 (\<lambda>w ew. w * exp (ew
                                                        * of_bool (w > 0 \<or> ew < 0)))
                                                  sample_weight estimator_weight,
                                                1, estimator_error)), st3)
                                        else (Inr (Some (sample_weight, 1, estimator_error)),
                                              st3))))))))"

text \<open>\<^verbatim>\<open>AdaBoostClassifier._boost\<close>.\<close>

definition boost_classifier ::
  "('m, 'x, 'c) weak_learner \<Rightarrow> nat \<Rightarrow> 'x list \<Rightarrow> 'c list \<Rightarrow> real list
   \<Rightarrow> ('m, 'c, 'z) ada_boost_classifier_scheme
   \<Rightarrow> (error + boost_result) \<times> ('m, 'c, 'z) ada_boost_classifier_scheme" where
  "boost_classifier L iboost X y sample_weight st =
     (if algorithm st = ''SAMME.R''
      then boost_real L iboost X y sample_weight st
      else boost_discrete L iboost X y sample_weight st)"

text \<open>\<^verbatim>\<open>AdaBoostClassifier.fit\<close>.\<close>

definition fit_classifier ::
  "('m, 'x, 'c) weak_learner \<Rightarrow> 'x list \<Rightarrow> 'c list \<Rightarrow> real list option
   \<Rightarrow> ('m, 'c, 'z) ada_boost_classifier_scheme
   \<Rightarrow> (error + unit) \<times> ('m, 'c, 'z) ada_boost_classifier_scheme" where
  "fit_classifier L X y sample_weight st =
     (if \<not> wl_is_classifier L then (Inl TypeError, st)
      else if algorithm st \<noteq> ''SAMME'' \<and> algorithm st \<noteq> ''SAMME.R''
      then (Inl ValueError, st)
      else if algorithm st = ''SAMME.R'' \<and> wl_predict_proba L = None
      then (Inl TypeError, st)
      else fit (boost_classifier L) L X y sample_weight st)"

text \<open>
  The decision function is a vector in the binary case (\<^verbatim>\<open>n_classes == 2\<close>) and a
  matrix otherwise.
\<close>

datatype decision = Binary "real list" | Multiclass "real list list"

text \<open>
  The body of the loop of \<^verbatim>\<open>decision_function\<close> and of
  \<^verbatim>\<open>staged_decision_function\<close> (the same lines in both): the current member's
  contribution \<^verbatim>\<open>current_pred\<close>.
\<close>

definition current_pred ::
  "('m, 'x, 'c) weak_learner \<Rightarrow> ('m, 'c, 'z) ada_boost_classifier_scheme \<Rightarrow> 'x list
   \<Rightarrow> real \<Rightarrow> 'm \<Rightarrow> error + real list list" where
  "current_pred L st X weight estimator =
     (if algorithm st = ''SAMME.R''
      then samme_proba L estimator (n_classes st) X
      else Inr (map (\<lambda>p. map (\<lambda>c. of_bool (p = c) * weight) (classes st))
                  (map (wl_predict L estimator) X)))"

text \<open>\<^verbatim>\<open>pred = current_pred\<close> on the first pass, \<^verbatim>\<open>pred += current_pred\<close> after.\<close>

definition add_pred :: "real list list option \<Rightarrow> real list list \<Rightarrow> real list list" where
  "add_pred pred cur = (case pred of None \<Rightarrow> cur | Some p \<Rightarrow> add_matrices p cur)"

text \<open>\<^verbatim>\<open>row[0] *= -1\<close>.\<close>

definition negate_first :: "real list \<Rightarrow> real list" where
  "negate_first row = (case row of [] \<Rightarrow> [] | v # vs \<Rightarrow> (- v) # vs)"

text \<open>The loop of \<^verbatim>\<open>decision_function\<close>, over the zipped weights and members.\<close>

fun decision_loop ::
  "('m, 'x, 'c) weak_learner \<Rightarrow> ('m, 'c, 'z) ada_boost_classifier_scheme \<Rightarrow> 'x list
   \<Rightarrow> (real \<times> 'm) list \<Rightarrow> real list list option \<Rightarrow> real
   \<Rightarrow> error + (real list list option \<times> real)" where
  "decision_loop L st X [] pred norm_acc = Inr (pred, norm_acc)"
| "decision_loop L st X ((weight, estimator) # rest) pred norm_acc =
     (case current_pred L st X weight estimator of
        Inl e \<Rightarrow> Inl e
      | Inr cur \<Rightarrow> decision_loop L st X rest (Some (add_pred pred cur)) (norm_acc + weight))"

definition decision_function ::
  "('m, 'x, 'c) weak_learner \<Rightarrow> ('m, 'c, 'z) ada_boost_classifier_scheme \<Rightarrow> 'x list
   \<Rightarrow> error + decision" where
  "decision_function L st X =
     (if estimators st = [] then Inl RuntimeError
      else case decision_loop L st X (zip (estimator_weights st) (estimators st)) None 0 of
        Inl e \<Rightarrow> Inl e
      | Inr (None, norm_acc) \<Rightarrow> Inl TypeError
      | Inr (Some pred, norm_acc) \<Rightarrow>
          (let pred1 = map (map (\<lambda>v. v / norm_acc)) pred
           in if n_classes st = 2
              then Inr (Binary (map (\<lambda>row. sum_list (negate_first row)) pred1))
              else Inr (Multiclass pred1)))"

text \<open>
  \<^verbatim>\<open>staged_decision_function\<close> is a generator; the model returns the list of
  everything it yields, or the exception that ends it.
\<close>

fun staged_decision_loop ::
  "('m, 'x, 'c) weak_learner \<Rightarrow> ('m, 'c, 'z) ada_boost_classifier_scheme \<Rightarrow> 'x list
   \<Rightarrow> (real \<times> 'm) list \<Rightarrow> real list list option \<Rightarrow> real
   \<Rightarrow> error + decision list" where
  "staged_decision_loop L st X [] pred norm_acc = Inr []"
| "staged_decision_loop L st X ((weight, estimator) # rest) pred norm_acc =
     (case current_pred L st X weight estimator of
        Inl e \<Rightarrow> Inl e
      | Inr cur \<Rightarrow>
          (let norm_acc1 = norm_acc + weight;
               pred1 = add_pred pred cur;
               yielded =
                 (if n_classes st = 2
                  then Binary (map (\<lambda>row. sum_list (map (\<lambda>v. v / norm_acc1) (negate_first row)))
                                 pred1)
                  else Multiclass (map (map (\<lambda>v. v / norm_acc1)) pred1))
           in case staged_decision_loop L st X rest (Some pred1) norm_acc1 of
                Inl e \<Rightarrow> Inl e
              | Inr ys \<Rightarrow> Inr (yielded # ys)))"

definition staged_decision_function ::
  "('m, 'x, 'c) weak_learner \<Rightarrow> ('m, 'c, 'z) ada_boost_classifier_scheme \<Rightarrow> 'x list
   \<Rightarrow> error + decision list" where
  "staged_decision_function L st X =
     (if estimators st = [] then Inl RuntimeError
      else staged_decision_loop L st X (zip (estimator_weights st) (estimators st)) None 0)"

text \<open>
  The last step of \<^verbatim>\<open>predict\<close> and of \<^verbatim>\<open>staged_predict\<close>:
  \<^verbatim>\<open>classes_.take(pred > 0)\<close> for the binary vector,
  \<^verbatim>\<open>classes_.take(np.argmax(pred, axis=1))\<close> for the matrix. Both methods branch on
  \<^verbatim>\<open>n_classes == 2\<close>, the test that decides the shape of the decision function.
\<close>

definition labels_of_decision :: "'c list \<Rightarrow> decision \<Rightarrow> error + 'c list" where
  "labels_of_decision cls d =
     (case d of
        Binary pred \<Rightarrow> collect (map (\<lambda>v. take_at cls (if v > 0 then 1 else 0)) pred)
      | Multiclass pred \<Rightarrow>
          (case collect (map argmax pred) of
             Inl e \<Rightarrow> Inl e
           | Inr best \<Rightarrow> collect (map (take_at cls) best)))"

definition predict_classifier ::
  "('m, 'x, 'c) weak_learner \<Rightarrow> ('m, 'c, 'z) ada_boost_classifier_scheme \<Rightarrow> 'x list
   \<Rightarrow> error + 'c list" where
  "predict_classifier L st X =
     (case decision_function L st X of
        Inl e \<Rightarrow> Inl e
      | Inr pred \<Rightarrow> labels_of_decision (classes st) pred)"

definition staged_predict_classifier ::
  "('m, 'x, 'c) weak_learner \<Rightarrow> ('m, 'c, 'z) ada_boost_classifier_scheme \<Rightarrow> 'x list
   \<Rightarrow> error + 'c list list" where
  "staged_predict_classifier L st X =
     (case staged_decision_function L st X of
        Inl e \<Rightarrow> Inl e
      | Inr preds \<Rightarrow> collect (map (labels_of_decision (classes st)) preds))"

text \<open>
  \<^verbatim>\<open>predict_proba\<close> and \<^verbatim>\<open>staged_predict_proba\<close>. The loop variable \<^verbatim>\<open>weight\<close>
  is bound by the \<^verbatim>\<open>zip\<close> and not used in the body.
\<close>

fun proba_loop ::
  "('m, 'x, 'c) weak_learner \<Rightarrow> nat \<Rightarrow> 'x list \<Rightarrow> (real \<times> 'm) list
   \<Rightarrow> real list list option \<Rightarrow> error + real list list option" where
  "proba_loop L n_cls X [] proba = Inr proba"
| "proba_loop L n_cls X ((weight, estimator) # rest) proba =
     (case samme_proba L estimator n_cls X of
        Inl e \<Rightarrow> Inl e
      | Inr current_proba \<Rightarrow> proba_loop L n_cls X rest (Some (add_pred proba current_proba)))"

text \<open>
  \<^verbatim>\<open>np.exp((1. / (n_classes - 1)) * proba)\<close>, divided by the row sums, a zero sum
  replaced by one.
\<close>

definition real_proba :: "nat \<Rightarrow> real list list \<Rightarrow> real list list" where
  "real_proba n_cls proba =
     map (\<lambda>row. (let e = map (\<lambda>v. exp ((1 / (real n_cls - 1)) * v)) row;
                     normalizer = sum_list e
                 in map (\<lambda>v. v / (if normalizer = 0 then 1 else normalizer)) e))
       proba"

definition predict_proba ::
  "('m, 'x, 'c) weak_learner \<Rightarrow> ('m, 'c, 'z) ada_boost_classifier_scheme \<Rightarrow> 'x list
   \<Rightarrow> error + real list list" where
  "predict_proba L st X =
     (case proba_loop L (n_classes st) X (zip (estimator_weights st) (estimators st)) None of
        Inl e \<Rightarrow> Inl e
      | Inr proba \<Rightarrow>
          if n_classes st = 1 then Inl ZeroDivisionError
          else (case proba of
                  None \<Rightarrow> Inl TypeError
                | Some p \<Rightarrow> Inr (real_proba (n_classes st) p)))"

fun staged_proba_loop ::
  "('m, 'x, 'c) weak_learner \<Rightarrow> nat \<Rightarrow> 'x list \<Rightarrow> (real \<times> 'm) list
   \<Rightarrow> real list list option \<Rightarrow> error + real list list list" where
  "staged_proba_loop L n_cls X [] proba = Inr []"
| "staged_proba_loop L n_cls X ((weight, estimator) # rest) proba =
     (case samme_proba L estimator n_cls X of
        Inl e \<Rightarrow> Inl e
      | Inr current_proba \<Rightarrow>
          (let proba1 = add_pred proba current_proba
           in if n_cls = 1 then Inl ZeroDivisionError
              else case staged_proba_loop L n_cls X rest (Some proba1) of
                     Inl e \<Rightarrow> Inl e
                   | Inr ys \<Rightarrow> Inr (real_proba n_cls proba1 # ys)))"

definition staged_predict_proba ::
  "('m, 'x, 'c) weak_learner \<Rightarrow> ('m, 'c, 'z) ada_boost_classifier_scheme \<Rightarrow> 'x list
   \<Rightarrow> error + real list list list" where
  "staged_predict_proba L st X =
     staged_proba_loop L (n_classes st) X (zip (estimator_weights st) (estimators st)) None"

subsection \<open>AdaBoostRegressor\<close>

text \<open>
  \<open>random_sample\<close> stands for the generator that
  \<^verbatim>\<open>check_random_state(self.random_state)\<close> returns: \<open>random_sample st iboost n\<close>
  is what \<^verbatim>\<open>generator.random_sample(n)\<close> draws in iteration \<open>iboost\<close>.
\<close>

record 'm ada_boost_regressor = "'m weight_boosting" +
  loss :: string
  random_sample :: "nat \<Rightarrow> nat \<Rightarrow> real list"

text \<open>\<^verbatim>\<open>a.cumsum()\<close>.\<close>

fun cumsum_from :: "real \<Rightarrow> real list \<Rightarrow> real list" where
  "cumsum_from acc [] = []"
| "cumsum_from acc (v # vs) = (acc + v) # cumsum_from (acc + v) vs"

definition cumsum :: "real list \<Rightarrow> real list" where
  "cumsum vs = cumsum_from 0 vs"

text \<open>
  \<^verbatim>\<open>cdf.searchsorted(v, side='right')\<close> on an ascending \<^verbatim>\<open>cdf\<close>: the number of
  leading entries that are at most \<open>v\<close>.
\<close>

definition searchsorted_right :: "real list \<Rightarrow> real \<Rightarrow> nat" where
  "searchsorted_right cdf v = length (takeWhile (\<lambda>c. c \<le> v) cdf)"

text \<open>\<^verbatim>\<open>a.max()\<close>: \<open>ValueError\<close> on an empty array.\<close>

definition array_max :: "real list \<Rightarrow> error + real" where
  "array_max vs = (case vs of [] \<Rightarrow> Inl ValueError | v # rest \<Rightarrow> Inr (fold max rest v))"

text \<open>Lines 943--955 of \<^verbatim>\<open>_boost\<close>: the loss vector of a prediction.\<close>

definition error_vector :: "string \<Rightarrow> real list \<Rightarrow> real list \<Rightarrow> error + real list" where
  "error_vector loss_name y_predict y =
     (let error_vect = map2 (\<lambda>p t. \<bar>p - t\<bar>) y_predict y
      in case array_max error_vect of
           Inl e \<Rightarrow> Inl e
         | Inr error_max \<Rightarrow>
            (let error_vect1 = (if error_max \<noteq> 0
                                then map (\<lambda>e. e / error_max) error_vect
                                else error_vect)
             in if loss_name = ''square'' then Inr (map (\<lambda>e. e * e) error_vect1)
                else if loss_name = ''exponential''
                then Inr (map (\<lambda>e. 1 - exp (- e)) error_vect1)
                else Inr error_vect1))"

text \<open>\<^verbatim>\<open>AdaBoostRegressor._boost\<close>: one boost of AdaBoost.R2.\<close>

definition boost_regressor ::
  "('m, 'x, real) weak_learner \<Rightarrow> nat \<Rightarrow> 'x list \<Rightarrow> real list \<Rightarrow> real list
   \<Rightarrow> ('m, 'z) ada_boost_regressor_scheme
   \<Rightarrow> (error + boost_result) \<times> ('m, 'z) ada_boost_regressor_scheme" where
  "boost_regressor L iboost X y sample_weight st =
     (case make_estimator st of (estimator0, st1) \<Rightarrow>
      (let cdf0 = cumsum sample_weight
       in if cdf0 = [] then (Inl IndexError, st1)
          else if last cdf0 = 0 then (Inl NonFinite, st1)
          else
          (let cdf = map (\<lambda>c. c / last cdf0) cdf0;
               uniform_samples = random_sample st1 iboost (length X);
               bootstrap_idx = map (searchsorted_right cdf) uniform_samples
           in case collect (map (take_at X) bootstrap_idx) of
                Inl e \<Rightarrow> (Inl e, st1)
              | Inr X_boot \<Rightarrow>
                 (case collect (map (take_at y) bootstrap_idx) of
                    Inl e \<Rightarrow> (Inl e, st1)
                  | Inr y_boot \<Rightarrow>
                     (case wl_fit L estimator0 X_boot y_boot None of
                        Inl e \<Rightarrow> (Inl e, st1)
                      | Inr estimator \<Rightarrow>
                         (let st2 = store_fitted estimator st1;
                              y_predict = map (wl_predict L estimator) X
                          in case error_vector (loss st2) y_predict y of
                               Inl e \<Rightarrow> (Inl e, st2)
                             | Inr error_vect \<Rightarrow>
                                (let estimator_error =
                                       sum_list (map2 (*) sample_weight error_vect)
                                 in if estimator_error \<le> 0
                                    then (Inr (Some (sample_weight, 1, 0)), st2)
                                    else if estimator_error \<ge> 0.5
                                    then (Inr None,
                                          if length (estimators st2) > 1
                                          then pop_estimator st2 else st2)
                                    else
                                     (let beta = estimator_error / (1 - estimator_error);
                                          estimator_weight =
                                            learning_rate st2 * ln (1 / beta)
                                      in if iboost \<noteq> n_estimators st2 - 1
                                         then (Inr (Some
                                                (map2 (\<lambda>w e. w * beta powr
                                                          ((1 - e) * learning_rate st2))
                                                   sample_weight error_vect,
                                                 estimator_weight, estimator_error)), st2)
                                         else (Inr (Some (sample_weight, estimator_weight,
                                                          estimator_error)), st2)))))))))"

text \<open>\<^verbatim>\<open>AdaBoostRegressor.fit\<close>.\<close>

definition fit_regressor ::
  "('m, 'x, real) weak_learner \<Rightarrow> 'x list \<Rightarrow> real list \<Rightarrow> real list option
   \<Rightarrow> ('m, 'z) ada_boost_regressor_scheme
   \<Rightarrow> (error + unit) \<times> ('m, 'z) ada_boost_regressor_scheme" where
  "fit_regressor L X y sample_weight st =
     (if \<not> wl_is_regressor L then (Inl TypeError, st)
      else if loss st \<noteq> ''linear'' \<and> loss st \<noteq> ''square'' \<and> loss st \<noteq> ''exponential''
      then (Inl ValueError, st)
      else fit (boost_regressor L) L X y sample_weight st)"

text \<open>
  \<^verbatim>\<open>np.argsort\<close> of one row of predictions: the indices in ascending order of the
  predictions, equal predictions in the order of their indices. (numpy's default
  sort promises no order among equal predictions. With non-negative estimator
  weights the prediction selected below is the same for every such order: the
  accumulated weight at the end of a run of equal predictions does not depend on
  the order inside the run.)
\<close>

definition argsort :: "real list \<Rightarrow> nat list" where
  "argsort row = map snd (sort_key fst (zip row [0..<length row]))"

text \<open>\<^verbatim>\<open>argmax\<close> of a boolean row: the first \<open>True\<close>, or 0 when there is none.\<close>

definition first_true :: "bool list \<Rightarrow> nat" where
  "first_true bs = (if True \<in> set bs then length (takeWhile (\<lambda>b. \<not> b) bs) else 0)"

text \<open>
  Lines 993--1003 of \<^verbatim>\<open>_get_median_predict\<close> for one sample: \<open>predictions\<close> is
  the row of the members' predictions for the sample, \<open>weights\<close> is
  \<^verbatim>\<open>estimator_weights_\<close>.
\<close>

definition median_predict_row :: "real list \<Rightarrow> real list \<Rightarrow> error + real" where
  "median_predict_row weights predictions =
     (let sorted_idx = argsort predictions
      in case collect (map (take_at weights) sorted_idx) of
           Inl e \<Rightarrow> Inl e
         | Inr sorted_weights \<Rightarrow>
            (let weight_cdf = cumsum sorted_weights
             in if weight_cdf = [] then Inl IndexError
                else (let median_or_above =
                            map (\<lambda>c. c \<ge> 0.5 * last weight_cdf) weight_cdf;
                          median_idx = first_true median_or_above;
                          median_estimator = sorted_idx ! median_idx
                      in Inr (predictions ! median_estimator))))"

text \<open>\<^verbatim>\<open>_get_median_predict\<close>.\<close>

definition get_median_predict ::
  "('m, 'x, real) weak_learner \<Rightarrow> ('m, 'z) ada_boost_regressor_scheme \<Rightarrow> 'x list \<Rightarrow> int
   \<Rightarrow> error + real list" where
  "get_median_predict L st X limit =
     (if estimators st = [] then Inl RuntimeError
      else (let limit1 = (if limit < 1 then int (length (estimators st)) else limit);
                members = take (nat limit1) (estimators st);
                predictions = map (\<lambda>x. map (\<lambda>est. wl_predict L est x) members) X
            in collect (map (median_predict_row (estimator_weights st)) predictions)))"

definition predict_regressor ::
  "('m, 'x, real) weak_learner \<Rightarrow> ('m, 'z) ada_boost_regressor_scheme \<Rightarrow> 'x list
   \<Rightarrow> error + real list" where
  "predict_regressor L st X = get_median_predict L st X (- 1)"

text \<open>
  \<^verbatim>\<open>staged_predict\<close> of the regressor, a generator: the list of what it yields, or
  the exception that ends it.
\<close>

definition staged_predict_regressor ::
  "('m, 'x, real) weak_learner \<Rightarrow> ('m, 'z) ada_boost_regressor_scheme \<Rightarrow> 'x list
   \<Rightarrow> error + real list list" where
  "staged_predict_regressor L st X =
     collect (map (\<lambda>i. get_median_predict L st X (int i + 1))
                [0..<length (estimators st)])"

subsection \<open>Example learners and estimators\<close>

text \<open>
  A regressor whose estimator is a constant: \<^verbatim>\<open>fit\<close> leaves it as it is and
  \<^verbatim>\<open>predict\<close> returns the constant for every row. It accepts
  \<^verbatim>\<open>set_params(compute_importances=True)\<close> and has no \<^verbatim>\<open>feature_importances_\<close>.
\<close>

definition const_regressor :: "(real, 'x, real) weak_learner" where
  "const_regressor =
     \<lparr>wl_fit = (\<lambda>m X y w. Inr m),
      wl_predict = (\<lambda>m x. m),
      wl_predict_proba = None,
      wl_classes = (\<lambda>m. []),
      wl_feature_importances = (\<lambda>m. None),
      wl_set_params = (\<lambda>m. Inr m),
      wl_is_classifier = False,
      wl_is_regressor = True\<rparr>"

text \<open>
  A freshly constructed \<^verbatim>\<open>AdaBoostRegressor\<close> over the constant \<open>c\<close>, with
  \<open>n\<close> estimators, linear loss, learning rate 1 and a generator that always
  draws 0.
\<close>

definition regressor0 :: "real \<Rightarrow> nat \<Rightarrow> real ada_boost_regressor" where
  "regressor0 c n =
     \<lparr>base_estimator = c, n_estimators = n, learning_rate = 1,
      compute_importances = False,
      estimators = [], estimator_weights = replicate n 0, estimator_errors = replicate n 1,
      feature_importances = None, loss = ''linear'',
      random_sample = (\<lambda>i k. replicate k 0)\<rparr>"

text \<open>
  A regressor that was fitted: the members are the constants \<open>members\<close>, with the
  estimator weights \<open>weights\<close>.
\<close>

definition fitted_regressor :: "real list \<Rightarrow> real list \<Rightarrow> real ada_boost_regressor" where
  "fitted_regressor members weights =
     (regressor0 0 (length weights))\<lparr>estimators := members, estimator_weights := weights\<rparr>"

subsection \<open>The weighted median, in the words of the specification\<close>

text \<open>
  "Sort all members' predictions, compute cumulative member-weight mass along that
  sorted order, and select the prediction at the smallest index where cumulative
  mass reaches half the total weight mass." \<open>weights\<close> and \<open>predictions\<close> are
  the members' weights and their predictions for one sample, member by member.
\<close>

definition weighted_median :: "real list \<Rightarrow> real list \<Rightarrow> real" where
  "weighted_median weights predictions =
     (let members = sort_key fst (zip predictions weights);
          mass = cumsum (map snd members);
          half = sum_list (map snd members) / 2;
          k = length (takeWhile (\<lambda>m. m < half) mass)
      in fst (members ! k))"

text \<open>
  A classifier whose estimator is a pair of a label and the classes seen: \<^verbatim>\<open>fit\<close>
  records the distinct labels of \<^verbatim>\<open>y\<close> in ascending order as \<^verbatim>\<open>classes_\<close>, and
  \<^verbatim>\<open>predict\<close> returns the label for every row. It has no \<^verbatim>\<open>predict_proba\<close>.
\<close>

definition const_classifier :: "(nat \<times> nat list, 'x, nat) weak_learner" where
  "const_classifier =
     \<lparr>wl_fit = (\<lambda>m X y w. Inr (fst m, remdups (sort y))),
      wl_predict = (\<lambda>m x. fst m),
      wl_predict_proba = None,
      wl_classes = snd,
      wl_feature_importances = (\<lambda>m. None),
      wl_set_params = (\<lambda>m. Inr m),
      wl_is_classifier = True,
      wl_is_regressor = False\<rparr>"

text \<open>
  A freshly constructed \<^verbatim>\<open>AdaBoostClassifier\<close> over the constant label \<open>c\<close>, with
  \<open>n\<close> estimators, the algorithm \<open>alg\<close> and learning rate 1.
\<close>

definition classifier0 :: "nat \<Rightarrow> string \<Rightarrow> nat \<Rightarrow> (nat \<times> nat list, nat) ada_boost_classifier" where
  "classifier0 c alg n =
     \<lparr>base_estimator = (c, []), n_estimators = n, learning_rate = 1,
      compute_importances = False,
      estimators = [], estimator_weights = replicate n 0, estimator_errors = replicate n 1,
      feature_importances = None, algorithm = alg, classes = [], n_classes = 0\<rparr>"

text \<open>
  A classifier that was fitted with the algorithm \<open>alg\<close> on the classes \<open>cls\<close>:
  the members are \<open>members\<close>, with the estimator weights \<open>weights\<close>.
\<close>

definition fitted_classifier ::
  "string \<Rightarrow> nat list \<Rightarrow> (nat \<times> nat list) list \<Rightarrow> real list
   \<Rightarrow> (nat \<times> nat list, nat) ada_boost_classifier" where
  "fitted_classifier alg cls members weights =
     (classifier0 0 alg (length weights))
       \<lparr>estimators := members, estimator_weights := weights,
        classes := cls, n_classes := length cls\<rparr>"

text \<open>
  The constant classifier with a \<^verbatim>\<open>predict_proba\<close> method: probability 1 for its
  label and 0 for the other classes.
\<close>

definition proba_classifier :: "(nat \<times> nat list, 'x, nat) weak_learner" where
  "proba_classifier =
     const_classifier
       \<lparr>wl_predict_proba :=
          Some (\<lambda>m x. map (\<lambda>c. if c = fst m then 1 else 0) (snd m))\<rparr>"



text \<open>
  The constant classifier with a \<^verbatim>\<open>predict_proba\<close> method that gives the
  probabilities 1/3 and 2/3 to two classes, for every member and row.
\<close>

definition soft_classifier :: "(nat \<times> nat list, 'x, nat) weak_learner" where
  "soft_classifier =
     const_classifier\<lparr>wl_predict_proba := Some (\<lambda>m x. [1 / 3, 2 / 3])\<rparr>"

subsection \<open>The SAMME.R transform, as the formula the source cites\<close>

text \<open>
  \<^verbatim>\<open>_samme_proba\<close> cites algorithm 4, step 2, equation (c) of Zhu et al.: from the
  class probabilities \<open>p\<close> of one sample, class \<open>k\<close> gets the score
  \<open>(K - 1) (log p\<^sub>k - (1/K) \<Sum>\<^sub>j log p\<^sub>j)\<close>, a probability that is not positive
  being replaced by \<open>10\<^sup>-\<^sup>5\<close> first. \<open>class_probabilities\<close> turns the scores of
  one sample, summed over the members, into probabilities: \<open>exp (score / (K - 1))\<close>
  for each class, divided by their sum (by 1 when the sum is zero).
\<close>

definition samme_r_transform :: "nat \<Rightarrow> real list \<Rightarrow> real list" where
  "samme_r_transform K p =
     (let log_p = map (\<lambda>q. ln (if q \<le> 0 then 1 / 100000 else q)) p
      in map (\<lambda>l. (real K - 1) * (l - sum_list log_p / real K)) log_p)"

definition class_probabilities :: "nat \<Rightarrow> real list \<Rightarrow> real list" where
  "class_probabilities K score =
     (let e = map (\<lambda>v. exp (v / (real K - 1))) score;
          total = sum_list e
      in map (\<lambda>v. v / (if total = 0 then 1 else total)) e)"

section \<open>Properties\<close>

subsection \<open>Renormalization of the sample weights\<close>

lemma sum_list_divide: "sum_list (map (\<lambda>w. w / c) ws) = sum_list ws / (c::real)"
  by (induction ws) (simp_all add: add_divide_distrib)

text \<open>
  C1. Whenever a pass through the loop body of \<^verbatim>\<open>fit\<close> hands sample weights on to
  the next pass (no exception, no \<^verbatim>\<open>break\<close>), then on every iteration but the last
  allowed one (\<open>iboost < n_estimators - 1\<close>) these weights sum to 1; on the last
  allowed iteration they are the weights that \<^verbatim>\<open>_boost\<close> returned, not renormalized.
\<close>

theorem renormalized_sample_weight_sums_to_one:
  assumes "boost_iteration boost iboost X y sample_weight st = (Inr (Some w), st')"
  shows "(iboost < n_estimators st' - 1 \<longrightarrow> sum_list w = 1) \<and>
         (\<not> iboost < n_estimators st' - 1 \<longrightarrow>
            (\<exists>estimator_weight estimator_error st1.
               boost iboost X y sample_weight st
                 = (Inr (Some (w, estimator_weight, estimator_error)), st1)))"
  using assms
  by (auto simp: boost_iteration_def Let_def sum_list_divide
           split: prod.splits sum.splits option.splits if_splits)

lemma error_vector_example:
  "error_vector ''linear'' [0, 0, 0, 0] [0, 0, 0, 1] = Inr [0, 0, 0, 1]"
  by (simp add: error_vector_def array_max_def)

lemma boost_regressor_example:
  "boost_regressor const_regressor 0 [(), (), (), ()] [0, 0, 0, 1]
     [1 / 4, 1 / 4, 1 / 4, 1 / 4] (regressor0 0 2)
   = (Inr (Some ([1 / 12, 1 / 12, 1 / 12, 1 / 4], ln 3, 1 / 4)),
      (regressor0 0 2)\<lparr>estimators := [0]\<rparr>)"
  by (simp add: boost_regressor_def make_estimator_def regressor0_def const_regressor_def
        cumsum_def searchsorted_right_def take_at_def store_fitted_def error_vector_example
        Let_def)

lemma boost_iteration_example:
  "boost_iteration (boost_regressor const_regressor) 0 [(), (), (), ()] [0, 0, 0, 1]
     [1 / 4, 1 / 4, 1 / 4, 1 / 4] (regressor0 0 2)
   = (Inr (Some [1 / 6, 1 / 6, 1 / 6, 1 / 2]),
      (regressor0 0 2)\<lparr>estimators := [0], estimator_weights := [ln 3, 0],
                        estimator_errors := [1 / 4, 1]\<rparr>)"
  by (simp add: boost_iteration_def boost_regressor_example Let_def)
     (simp add: regressor0_def numeral_2_eq_2)

lemma boost_regressor_last_example:
  "boost_regressor const_regressor 0 [(), (), (), ()] [0, 0, 0, 1]
     [1 / 4, 1 / 4, 1 / 4, 1 / 4] (regressor0 0 (Suc 0))
   = (Inr (Some ([1 / 4, 1 / 4, 1 / 4, 1 / 4], ln 3, 1 / 4)),
      (regressor0 0 (Suc 0))\<lparr>estimators := [0]\<rparr>)"
  by (simp add: boost_regressor_def make_estimator_def regressor0_def const_regressor_def
        cumsum_def searchsorted_right_def take_at_def store_fitted_def error_vector_example
        Let_def)

lemma boost_iteration_last_example:
  "boost_iteration (boost_regressor const_regressor) 0 [(), (), (), ()] [0, 0, 0, 1]
     [1 / 4, 1 / 4, 1 / 4, 1 / 4] (regressor0 0 (Suc 0))
   = (Inr (Some [1 / 4, 1 / 4, 1 / 4, 1 / 4]),
      (regressor0 0 (Suc 0))\<lparr>estimators := [0], estimator_weights := [ln 3],
                        estimator_errors := [1 / 4]\<rparr>)"
  by (simp add: boost_iteration_def boost_regressor_last_example Let_def)
     (simp add: regressor0_def)

theorem renormalized_sample_weight_sums_to_one_witness:
  "(boost_iteration (boost_regressor const_regressor) 0 [(), (), (), ()] [0, 0, 0, 1]
      [1 / 4, 1 / 4, 1 / 4, 1 / 4] (regressor0 0 2)
    = (Inr (Some [1 / 6, 1 / 6, 1 / 6, 1 / 2]),
       (regressor0 0 2)\<lparr>estimators := [0], estimator_weights := [ln 3, 0],
                         estimator_errors := [1 / 4, 1]\<rparr>)
    \<and> (0::nat) < 2 - 1
    \<and> sum_list [1 / 6, 1 / 6, 1 / 6, 1 / 2 :: real] = 1)
   \<and> (boost_iteration (boost_regressor const_regressor) 0 [(), (), (), ()] [0, 0, 0, 1]
        [1 / 4, 1 / 4, 1 / 4, 1 / 4] (regressor0 0 (Suc 0))
      = (Inr (Some [1 / 4, 1 / 4, 1 / 4, 1 / 4]),
         (regressor0 0 (Suc 0))\<lparr>estimators := [0], estimator_weights := [ln 3],
                           estimator_errors := [1 / 4]\<rparr>)
      \<and> \<not> (0::nat) < Suc 0 - 1
      \<and> (\<exists>estimator_weight estimator_error st1.
            boost_regressor const_regressor 0 [(), (), (), ()] [0, 0, 0, 1]
              [1 / 4, 1 / 4, 1 / 4, 1 / 4] (regressor0 0 (Suc 0))
            = (Inr (Some ([1 / 4, 1 / 4, 1 / 4, 1 / 4], estimator_weight, estimator_error)),
               st1)))"
  using renormalized_sample_weight_sums_to_one [OF boost_iteration_example]
        renormalized_sample_weight_sums_to_one [OF boost_iteration_last_example]
        boost_iteration_example boost_iteration_last_example
  by (simp add: regressor0_def)

subsection \<open>The weighted median of the regressor\<close>


lemma collect_map_Inr: "collect (map (\<lambda>x. Inr (f x)) xs) = Inr (map f xs)"
  by (induction xs) simp_all

lemma collect_take_at:
  "\<forall>i \<in> set idx. i < length xs \<Longrightarrow> collect (map (take_at xs) idx) = Inr (map ((!) xs) idx)"
  by (induction idx) (simp_all add: take_at_def)

lemma insort_key_map:
  assumes "\<And>a. f' a = f (g a)"
  shows "map g (insort_key f' x xs) = insort_key f (g x) (map g xs)"
  by (induction xs) (simp_all add: assms)

lemma sort_key_map:
  assumes "\<And>a. f' a = f (g a)"
  shows "map g (sort_key f' xs) = sort_key f (map g xs)"
  by (induction xs) (simp_all add: insort_key_map [of f' f g, OF assms])

lemma cumsum_from_length [simp]: "length (cumsum_from a vs) = length vs"
  by (induction vs arbitrary: a) simp_all

lemma cumsum_from_Nil [simp]: "cumsum_from a vs = [] \<longleftrightarrow> vs = []"
  by (cases vs) simp_all

lemma cumsum_from_last: "vs \<noteq> [] \<Longrightarrow> last (cumsum_from a vs) = a + sum_list vs"
  by (induction vs arbitrary: a) (auto simp: add.assoc)

lemma cumsum_last: "vs \<noteq> [] \<Longrightarrow> last (cumsum vs) = sum_list vs"
  by (simp add: cumsum_def cumsum_from_last)

lemma first_true_takeWhile:
  "\<exists>c \<in> set cs. P c \<Longrightarrow> first_true (map P cs) = length (takeWhile (\<lambda>c. \<not> P c) cs)"
  by (auto simp: first_true_def takeWhile_map comp_def)

lemma argsort_set: "set (argsort row) = {0..<length row}"
proof -
  have "map snd (zip row [0..<length row]) = [0..<length row]"
    by (rule map_snd_zip) simp
  moreover have "set (argsort row) = set (map snd (zip row [0..<length row]))"
    unfolding argsort_def by (simp only: set_map set_sort)
  ultimately show ?thesis
    by (simp only: set_upt)
qed

lemma argsort_length [simp]: "length (argsort row) = length row"
  by (simp add: argsort_def)

lemma sorted_zip_fst:
  "map (\<lambda>i. row ! i) (argsort row) = map fst (sort_key fst (zip row [0..<length row]))"
proof -
  have "\<forall>p \<in> set (sort_key fst (zip row [0..<length row])). row ! snd p = fst p"
    by (auto simp: set_zip)
  then show ?thesis
    by (simp add: argsort_def)
qed

lemma zip_weights:
  assumes "length row \<le> length ws"
  shows "map (\<lambda>(p, i). (p, ws ! i)) (zip row [0..<length row]) = zip row ws"
  using assms by (intro nth_equalityI) simp_all

lemma sorted_zip_weights:
  assumes "length row \<le> length ws"
  shows "map (\<lambda>(p, i). (p, ws ! i)) (sort_key fst (zip row [0..<length row]))
         = sort_key fst (zip row ws)"
proof -
  have "map (\<lambda>(p, i). (p, ws ! i)) (sort_key fst (zip row [0..<length row]))
        = sort_key fst (map (\<lambda>(p, i). (p, ws ! i)) (zip row [0..<length row]))"
    by (rule sort_key_map) (simp add: case_prod_beta)
  then show ?thesis
    by (simp only: zip_weights [OF assms])
qed

lemma sorted_weights:
  assumes "length row \<le> length ws"
  shows "map ((!) ws) (argsort row) = map snd (sort_key fst (zip row ws))"
proof -
  have "map ((!) ws) (argsort row)
        = map snd (map (\<lambda>(p, i). (p, ws ! i)) (sort_key fst (zip row [0..<length row])))"
    by (simp add: argsort_def case_prod_beta comp_def)
  then show ?thesis
    by (simp only: sorted_zip_weights [OF assms])
qed

lemma sorted_predictions:
  assumes "length row \<le> length ws"
  shows "map ((!) row) (argsort row) = map fst (sort_key fst (zip row ws))"
proof -
  have "map fst (sort_key fst (zip row ws))
        = map fst (map (\<lambda>(p, i). (p, ws ! i)) (sort_key fst (zip row [0..<length row])))"
    by (simp only: sorted_zip_weights [OF assms])
  then show ?thesis
    by (simp add: sorted_zip_fst case_prod_beta comp_def)
qed

lemma sum_list_insort_key:
  "sum_list (map f (insort_key k x xs)) = (f x :: real) + sum_list (map f xs)"
  by (induction xs) simp_all

lemma sum_list_sort_key: "sum_list (map f (sort_key k xs)) = (sum_list (map f xs) :: real)"
  by (induction xs) (simp_all add: sum_list_insort_key)

lemma takeWhile_stops:
  "\<exists>x \<in> set xs. \<not> P x \<Longrightarrow> length (takeWhile P xs) < length xs"
  by (induction xs) auto

lemma median_predict_row_eq:
  assumes "row \<noteq> []" and "length row \<le> length ws"
      and "0 \<le> sum_list (take (length row) ws)"
  shows "median_predict_row ws row = Inr (weighted_median ws row)"
proof -
  let ?members = "sort_key fst (zip row ws)"
  let ?sw = "map snd ?members"
  let ?cdf = "cumsum ?sw"
  let ?half = "sum_list ?sw / 2"
  have len: "length ?members = length row"
    using assms(2) by simp
  have ne: "?sw \<noteq> []"
    using assms(1) len by (metis length_0_conv length_map)
  have idx: "\<forall>i \<in> set (argsort row). i < length ws"
    using assms(2) by (simp add: argsort_set)
  have taken: "collect (map (take_at ws) (argsort row)) = Inr ?sw"
    by (simp only: collect_take_at [OF idx] sorted_weights [OF assms(2)])
  have total: "sum_list ?sw = sum_list (take (length row) ws)"
  proof -
    have "sum_list ?sw = sum_list (map snd (zip row ws))"
      by (rule sum_list_sort_key)
    also have "map snd (zip row ws) = take (length row) ws"
      using assms(2) by (simp add: map_snd_zip_take min_def)
    finally show ?thesis .
  qed
  have last_cdf: "last ?cdf = sum_list ?sw"
    by (rule cumsum_last [OF ne])
  have cdf_ne: "?cdf \<noteq> []"
    using ne by (simp add: cumsum_def)
  have "last ?cdf \<in> set ?cdf"
    using cdf_ne by simp
  moreover have "last ?cdf \<ge> 0.5 * last ?cdf"
    using assms(3) total last_cdf by simp
  ultimately have ex: "\<exists>c \<in> set ?cdf. c \<ge> 0.5 * last ?cdf"
    by blast
  have ft: "first_true (map (\<lambda>c. c \<ge> 0.5 * last ?cdf) ?cdf)
            = length (takeWhile (\<lambda>c. c < ?half) ?cdf)"
    using first_true_takeWhile [of ?cdf "\<lambda>c. c \<ge> 0.5 * last ?cdf", OF ex]
    by (simp add: last_cdf not_le)
  let ?k = "length (takeWhile (\<lambda>c. c < ?half) ?cdf)"
  have "\<exists>c \<in> set ?cdf. \<not> c < ?half"
    using ex by (simp add: last_cdf not_less)
  then have "?k < length ?cdf"
    by (rule takeWhile_stops)
  then have k: "?k < length row"
    using len by (simp add: cumsum_def)
  have "row ! (argsort row ! ?k) = map ((!) row) (argsort row) ! ?k"
    using k by simp
  also have "\<dots> = fst (?members ! ?k)"
    using k len by (simp only: sorted_predictions [OF assms(2)]) simp
  finally have pick: "row ! (argsort row ! ?k) = fst (?members ! ?k)" .
  show ?thesis
    unfolding median_predict_row_def weighted_median_def Let_def taken
    by (simp only: sum.case cdf_ne if_False ft pick)
qed



lemma get_median_predict_all:
  assumes "estimators st \<noteq> []"
      and "length (estimators st) \<le> length (estimator_weights st)"
      and "0 \<le> sum_list (take (length (estimators st)) (estimator_weights st))"
  shows "get_median_predict L st X (- 1)
         = Inr (map (\<lambda>x. weighted_median (estimator_weights st)
                             (map (\<lambda>est. wl_predict L est x) (estimators st))) X)"
proof -
  have row: "median_predict_row (estimator_weights st)
               (map (\<lambda>est. wl_predict L est x) (estimators st))
             = Inr (weighted_median (estimator_weights st)
                      (map (\<lambda>est. wl_predict L est x) (estimators st)))" for x
    using assms by (intro median_predict_row_eq) simp_all
  show ?thesis
    using assms(1)
    by (simp add: get_median_predict_def Let_def comp_def row collect_map_Inr)
qed

lemma predict_example:
  "predict_regressor const_regressor
     (fitted_regressor [1, 2, 3] [1 / 5, 3 / 10, 1 / 2]) [()] = Inr [2]"
  by (simp add: predict_regressor_def get_median_predict_def fitted_regressor_def
        regressor0_def const_regressor_def median_predict_row_def argsort_def
        take_at_def cumsum_def first_true_def Let_def)

text \<open>
  C2, as amended. On a fitted regressor whose members' weights have a non-negative
  sum, \<^verbatim>\<open>predict\<close> returns for every sample the weighted median of the
  specification: the members' predictions are sorted, the estimator weights are
  accumulated along that order, and the prediction at the smallest index where the
  accumulated mass is at least half the total is returned. For three members
  predicting 1.0, 2.0 and 3.0 with weights 0.2, 0.3 and 0.5 the accumulated masses
  are 0.2, 0.5 and 1.0, and \<^verbatim>\<open>predict\<close> selects 2.0.
\<close>

theorem regression_predict_weighted_median:
  "(estimators st \<noteq> []
      \<and> length (estimators st) \<le> length (estimator_weights st)
      \<and> 0 \<le> sum_list (take (length (estimators st)) (estimator_weights st))
    \<longrightarrow> predict_regressor L st X
          = Inr (map (\<lambda>x. weighted_median (estimator_weights st)
                             (map (\<lambda>est. wl_predict L est x) (estimators st))) X))
   \<and> predict_regressor const_regressor
        (fitted_regressor [1, 2, 3] [1 / 5, 3 / 10, 1 / 2]) [()] = Inr [2]"
  using get_median_predict_all [of st L X] predict_example
  by (simp add: predict_regressor_def)

theorem regression_predict_weighted_median_witness:
  "estimators (fitted_regressor [1, 2, 3] [1 / 5, 3 / 10, 1 / 2]) \<noteq> []
   \<and> length (estimators (fitted_regressor [1, 2, 3] [1 / 5, 3 / 10, 1 / 2]))
       \<le> length (estimator_weights (fitted_regressor [1, 2, 3] [1 / 5, 3 / 10, 1 / 2]))
   \<and> 0 \<le> sum_list (take (length (estimators (fitted_regressor [1, 2, 3] [1 / 5, 3 / 10, 1 / 2])))
                  (estimator_weights (fitted_regressor [1, 2, 3] [1 / 5, 3 / 10, 1 / 2])))
   \<and> predict_regressor const_regressor
        (fitted_regressor [1, 2, 3] [1 / 5, 3 / 10, 1 / 2]) [()]
      = Inr [weighted_median [1 / 5, 3 / 10, 1 / 2] [1, 2, 3]]
   \<and> weighted_median [1 / 5, 3 / 10, 1 / 2] [1, 2, 3] = 2"
  using regression_predict_weighted_median
          [of "fitted_regressor [1, 2, 3] [1 / 5, 3 / 10, 1 / 2]" const_regressor "[()]"]
  by (simp add: fitted_regressor_def regressor0_def const_regressor_def weighted_median_def
        cumsum_def)

text \<open>
  C2 as stated fails at its own example: \<^verbatim>\<open>predict\<close> does not select 3.0.
\<close>

theorem regression_predict_example_counterexample:
  "predict_regressor const_regressor
     (fitted_regressor [1, 2, 3] [1 / 5, 3 / 10, 1 / 2]) [()] \<noteq> Inr [3]"
  by (simp add: predict_example)

subsection \<open>Early termination of the discrete booster\<close>

text \<open>
  C3, as amended. In the discrete (SAMME) variant, when the learner of iteration
  \<open>iboost\<close> was fitted and its weighted error is positive and at least \<open>1 - 1/K\<close>
  (\<open>K\<close> the number of classes), \<^verbatim>\<open>_boost\<close> returns the termination sentinel, the
  learner just fitted is removed again, so the ensemble is the one from before the
  iteration (one member fewer than the learners recorded and fitted so far), and
  the loop of \<^verbatim>\<open>fit\<close> ends there, whatever iterations were left.
\<close>

theorem samme_discards_learner_no_better_than_chance:
  assumes "algorithm st \<noteq> ''SAMME.R''"
      and "wl_fit L (base_estimator st) X y (Some sample_weight) = Inr estimator"
      and "average (map2 (\<lambda>p t. p \<noteq> t) (map (wl_predict L estimator) X) y) sample_weight
           = Inr estimator_error"
      and "K = (if iboost = 0 then length (wl_classes L estimator) else n_classes st)"
      and "0 < K"
      and "0 < estimator_error"
      and "estimator_error \<ge> 1 - 1 / real K"
  shows "\<exists>st'. boost_classifier L iboost X y sample_weight st = (Inr None, st')
             \<and> boost_loop (boost_classifier L) (iboost # rest) X y sample_weight st
                 = (Inr (), st')
             \<and> estimators st' = estimators st
             \<and> Suc (length (estimators st')) = length (estimators (snd (make_estimator st)))"
proof -
  let ?st1 = "st\<lparr>estimators := estimators st @ [base_estimator st]\<rparr>"
  let ?st3 = "set_classes L iboost estimator (store_fitted estimator ?st1)"
  have nc: "n_classes ?st3 = K"
    using assms(4) by (simp add: set_classes_def store_fitted_def)
  have b: "boost_discrete L iboost X y sample_weight st = (Inr None, pop_estimator ?st3)"
    using assms(2,3,5,6,7)
    by (simp add: boost_discrete_def make_estimator_def Let_def nc)
  then have c: "boost_classifier L iboost X y sample_weight st = (Inr None, pop_estimator ?st3)"
    using assms(1) by (simp add: boost_classifier_def)
  have l: "boost_loop (boost_classifier L) (iboost # rest) X y sample_weight st
           = (Inr (), pop_estimator ?st3)"
    by (simp add: boost_iteration_def c)
  have e: "estimators (pop_estimator ?st3) = estimators st"
    by (simp add: pop_estimator_def set_classes_def store_fitted_def)
  have "Suc (length (estimators (pop_estimator ?st3)))
        = length (estimators (snd (make_estimator st)))"
    by (simp only: e) (simp add: make_estimator_def)
  with c l e show ?thesis
    by blast
qed


lemma const_classifier_fit_example:
  "wl_fit const_classifier (base_estimator (classifier0 0 ''SAMME'' 2)) [(), ()] [0, 1]
     (Some [1 / 2, 1 / 2]) = Inr (0, [0, 1])"
  by (simp add: const_classifier_def classifier0_def)

lemma const_classifier_error_example:
  "average (map2 (\<lambda>p t. p \<noteq> t) (map (wl_predict const_classifier (0, [0, 1])) [(), ()]) [0, 1])
     [1 / 2, 1 / 2] = Inr (1 / 2)"
  by (simp add: const_classifier_def average_def)

theorem samme_discards_learner_no_better_than_chance_witness:
  "algorithm (classifier0 0 ''SAMME'' 2) \<noteq> ''SAMME.R''
   \<and> wl_fit const_classifier (base_estimator (classifier0 0 ''SAMME'' 2)) [(), ()] [0, 1]
       (Some [1 / 2, 1 / 2]) = Inr (0, [0, 1])
   \<and> average (map2 (\<lambda>p t. p \<noteq> t) (map (wl_predict const_classifier (0, [0, 1])) [(), ()])
                [0, 1]) [1 / 2, 1 / 2] = Inr (1 / 2)
   \<and> (2::nat) = (if (0::nat) = 0 then length (wl_classes const_classifier (0, [0, 1]))
                  else n_classes (classifier0 0 ''SAMME'' 2))
   \<and> (0::nat) < 2 \<and> (0::real) < 1 / 2 \<and> (1 / 2 :: real) \<ge> 1 - 1 / real (2::nat)
   \<and> (\<exists>st'. boost_classifier const_classifier 0 [(), ()] [0, 1] [1 / 2, 1 / 2]
                (classifier0 0 ''SAMME'' 2) = (Inr None, st')
            \<and> boost_loop (boost_classifier const_classifier) [0, 1] [(), ()] [0, 1]
                 [1 / 2, 1 / 2] (classifier0 0 ''SAMME'' 2) = (Inr (), st')
            \<and> estimators st' = estimators (classifier0 0 ''SAMME'' 2)
            \<and> Suc (length (estimators st'))
                = length (estimators (snd (make_estimator (classifier0 0 ''SAMME'' 2)))))"
proof -
  have h1: "algorithm (classifier0 0 ''SAMME'' 2) \<noteq> ''SAMME.R''"
    by (simp add: classifier0_def)
  have h4: "(2::nat) = (if (0::nat) = 0 then length (wl_classes const_classifier (0, [0, 1]))
                        else n_classes (classifier0 0 ''SAMME'' 2))"
    by (simp add: const_classifier_def)
  have h5: "(0::nat) < 2" by simp
  have h6: "(0::real) < 1 / 2" by simp
  have h7: "(1 / 2 :: real) \<ge> 1 - 1 / real (2::nat)" by simp
  show ?thesis
    using samme_discards_learner_no_better_than_chance
            [OF h1 const_classifier_fit_example const_classifier_error_example h4 h5 h6 h7,
             of "[1]"]
          h1 const_classifier_fit_example const_classifier_error_example h4
    by simp
qed

lemma single_class_fit_example:
  "fit_classifier const_classifier [(), ()] [0, 0] None (classifier0 0 ''SAMME'' 2)
   = (Inr (),
      (classifier0 0 ''SAMME'' 2)
        \<lparr>estimators := [(0, [0])], estimator_weights := [1, 0], estimator_errors := [0, 1],
         classes := [0], n_classes := 1\<rparr>)"
  by (simp add: fit_classifier_def fit_def set_importance_param_def
        check_arrays_def init_sample_weight_def
        boost_iteration_def boost_classifier_def boost_discrete_def make_estimator_def
        store_fitted_def set_classes_def average_def sum_importances_def
        const_classifier_def classifier0_def Let_def upt_rec numeral_2_eq_2)

text \<open>
  C3 as stated fails for a single class (K = 1), where \<open>1 - 1/K = 0\<close>: a learner
  with weighted error 0 has an error at least \<open>1 - 1/K\<close>, and it is kept (the
  perfect-fit test comes first): the ensemble has the one learner that was fitted,
  with the recorded error 0.
\<close>

theorem samme_single_class_counterexample:
  "fit_classifier const_classifier [(), ()] [0, 0] None (classifier0 0 ''SAMME'' 2)
   = (Inr (),
      (classifier0 0 ''SAMME'' 2)
        \<lparr>estimators := [(0, [0])], estimator_weights := [1, 0], estimator_errors := [0, 1],
         classes := [0], n_classes := 1\<rparr>)
   \<and> (0::real) \<ge> 1 - 1 / real (1::nat)"
  using single_class_fit_example by simp

subsection \<open>Early termination of the regression booster\<close>

lemma boost_regressor_keeps_a_member:
  "estimators (snd (boost_regressor L iboost X y sample_weight st)) \<noteq> []"
proof -
  have "length xs > 1 \<Longrightarrow> butlast xs \<noteq> []" for xs :: "'a list"
    by (cases xs) auto
  then show ?thesis
    by (auto simp: boost_regressor_def make_estimator_def store_fitted_def pop_estimator_def
          Let_def split: sum.splits if_splits)
qed

lemma boost_iteration_estimators:
  "estimators (snd (boost_iteration boost iboost X y sample_weight st))
   = estimators (snd (boost iboost X y sample_weight st))"
  by (auto simp: boost_iteration_def Let_def split: prod.splits sum.splits option.splits)

lemma boost_loop_regressor_keeps_a_member:
  "idx \<noteq> [] \<or> estimators st \<noteq> [] \<Longrightarrow>
   estimators (snd (boost_loop (boost_regressor L) idx X y sample_weight st)) \<noteq> []"
proof (induction idx arbitrary: sample_weight st)
  case Nil
  then show ?case by simp
next
  case (Cons i idx)
  have "estimators (snd (boost_iteration (boost_regressor L) i X y sample_weight st)) \<noteq> []"
    by (simp add: boost_iteration_estimators boost_regressor_keeps_a_member)
  then show ?case
    using Cons.IH
    by (auto split: prod.splits sum.splits option.splits)
qed

lemma sum_importances_estimators:
  "estimators (snd (sum_importances L st)) = estimators st"
  by (simp add: sum_importances_def Let_def)

lemma set_importance_param_Inr:
  assumes "set_importance_param L st = Inr st0"
  shows "st0 = st\<lparr>base_estimator := base_estimator st0\<rparr>"
  using assms by (auto simp: set_importance_param_def split: if_splits sum.splits)

lemma fit_regressor_keeps_a_member:
  assumes "fit_regressor L X y sample_weight st = (Inr (), st')" and "0 < n_estimators st"
  shows "estimators st' \<noteq> []"
proof -
  have v: "fit (boost_regressor L) L X y sample_weight st = (Inr (), st')"
    using assms(1) by (auto simp: fit_regressor_def split: if_splits)
  then obtain st0 where s0: "set_importance_param L st = Inr st0"
    by (auto simp: fit_def split: if_splits sum.splits)
  have n: "n_estimators st0 = n_estimators st"
    using set_importance_param_Inr [OF s0] by (metis weight_boosting.select_convs(2)
      weight_boosting.surjective weight_boosting.update_convs(1))
  let ?st1 = "st0\<lparr>estimators := [], estimator_weights := replicate (n_estimators st0) 0,
                   estimator_errors := replicate (n_estimators st0) 1\<rparr>"
  from v s0 obtain w0 st2 where
    l: "boost_loop (boost_regressor L) [0..<n_estimators ?st1] X y w0 ?st1 = (Inr (), st2)"
    and i: "sum_importances L st2 = (Inr (), st')"
    by (auto simp: fit_def Let_def split: if_splits sum.splits prod.splits)
  have "[0..<n_estimators ?st1] \<noteq> []"
    using assms(2) n by simp
  then have "estimators (snd (boost_loop (boost_regressor L) [0..<n_estimators ?st1] X y w0 ?st1))
             \<noteq> []"
    by (intro boost_loop_regressor_keeps_a_member) simp
  then have "estimators st2 \<noteq> []"
    using l by simp
  then show ?thesis
    using sum_importances_estimators [of L st2] by (simp add: i)
qed

lemma boost_regressor_poor_learner:
  assumes "sample_weight \<noteq> []"
      and "sum_list sample_weight \<noteq> 0"
      and "bootstrap_idx =
             map (searchsorted_right
                    (map (\<lambda>c. c / last (cumsum sample_weight)) (cumsum sample_weight)))
               (random_sample st iboost (length X))"
      and "collect (map (take_at X) bootstrap_idx) = Inr X_boot"
      and "collect (map (take_at y) bootstrap_idx) = Inr y_boot"
      and "wl_fit L (base_estimator st) X_boot y_boot None = Inr estimator"
      and "error_vector (loss st) (map (wl_predict L estimator) X) y = Inr error_vect"
      and "sum_list (map2 (*) sample_weight error_vect) \<ge> 0.5"
  shows "boost_regressor L iboost X y sample_weight st
         = (Inr None,
            st\<lparr>estimators := (if estimators st = [] then [estimator] else estimators st)\<rparr>)"
proof -
  have ne: "cumsum sample_weight \<noteq> []"
    using assms(1) by (cases sample_weight) (simp_all add: cumsum_def)
  have nz: "last (cumsum sample_weight) \<noteq> 0"
    using assms(1,2) by (simp add: cumsum_last)
  show ?thesis
    using assms(4,5) [unfolded assms(3)] assms(6-8) ne nz
    by (simp add: boost_regressor_def make_estimator_def store_fitted_def pop_estimator_def
          Let_def)
qed

text \<open>
  C4. In the regression (AdaBoost.R2) variant, when the learner of iteration
  \<open>iboost\<close> was fitted on the bootstrap sample and its \<^verbatim>\<open>estimator_error\<close> is at
  least 0.5 (the sample weights do not sum to zero), \<^verbatim>\<open>_boost\<close> returns the
  termination sentinel and the loop of \<^verbatim>\<open>fit\<close> ends there; the learner is removed again when the ensemble had members before the
  iteration, and kept when it is the only member. And a regression \<^verbatim>\<open>fit\<close> with at
  least one allowed iteration that returns normally leaves at least one member.
\<close>

theorem regression_discards_poor_learner_unless_sole:
  "(sample_weight \<noteq> []
      \<and> sum_list sample_weight \<noteq> 0
      \<and> bootstrap_idx =
          map (searchsorted_right
                 (map (\<lambda>c. c / last (cumsum sample_weight)) (cumsum sample_weight)))
            (random_sample st iboost (length X))
      \<and> collect (map (take_at X) bootstrap_idx) = Inr X_boot
      \<and> collect (map (take_at y) bootstrap_idx) = Inr y_boot
      \<and> wl_fit L (base_estimator st) X_boot y_boot None = Inr estimator
      \<and> error_vector (loss st) (map (wl_predict L estimator) X) y = Inr error_vect
      \<and> sum_list (map2 (*) sample_weight error_vect) \<ge> 0.5
    \<longrightarrow> (\<exists>st'. boost_regressor L iboost X y sample_weight st = (Inr None, st')
              \<and> boost_loop (boost_regressor L) (iboost # rest) X y sample_weight st
                  = (Inr (), st')
              \<and> estimators st'
                  = (if estimators st = [] then [estimator] else estimators st)))
   \<and> (fit_regressor L X y sample_weight0 st = (Inr (), st'') \<and> 0 < n_estimators st
      \<longrightarrow> estimators st'' \<noteq> [])"
proof (intro conjI impI; (elim conjE)?)
  assume a: "sample_weight \<noteq> []"
    "sum_list sample_weight \<noteq> 0"
    "bootstrap_idx =
       map (searchsorted_right
              (map (\<lambda>c. c / last (cumsum sample_weight)) (cumsum sample_weight)))
         (random_sample st iboost (length X))"
    "collect (map (take_at X) bootstrap_idx) = Inr X_boot"
    "collect (map (take_at y) bootstrap_idx) = Inr y_boot"
    "wl_fit L (base_estimator st) X_boot y_boot None = Inr estimator"
    "error_vector (loss st) (map (wl_predict L estimator) X) y = Inr error_vect"
    "sum_list (map2 (*) sample_weight error_vect) \<ge> 0.5"
  let ?st' = "st\<lparr>estimators := (if estimators st = [] then [estimator] else estimators st)\<rparr>"
  have b: "boost_regressor L iboost X y sample_weight st = (Inr None, ?st')"
    by (rule boost_regressor_poor_learner [OF a])
  then have "boost_loop (boost_regressor L) (iboost # rest) X y sample_weight st
             = (Inr (), ?st')"
    by (simp add: boost_iteration_def)
  moreover have "estimators ?st' = (if estimators st = [] then [estimator] else estimators st)"
    by simp
  ultimately show "\<exists>st'. boost_regressor L iboost X y sample_weight st = (Inr None, st')
              \<and> boost_loop (boost_regressor L) (iboost # rest) X y sample_weight st
                  = (Inr (), st')
              \<and> estimators st'
                  = (if estimators st = [] then [estimator] else estimators st)"
    using b by blast
next
  assume "fit_regressor L X y sample_weight0 st = (Inr (), st'')" "0 < n_estimators st"
  then show "estimators st'' \<noteq> []"
    by (rule fit_regressor_keeps_a_member)
qed


lemma error_vector_half_example:
  "error_vector ''linear'' [0, 0] [0, 1] = Inr [0, 1]"
  by (simp add: error_vector_def array_max_def)

lemma sole_member_fit_example:
  "fit_regressor const_regressor [(), ()] [0, 1] None (regressor0 0 (Suc 0))
   = (Inr (), (regressor0 0 (Suc 0))\<lparr>estimators := [0]\<rparr>)"
  by (simp add: fit_regressor_def fit_def set_importance_param_def
        check_arrays_def init_sample_weight_def
        boost_iteration_def boost_regressor_def make_estimator_def store_fitted_def
        cumsum_def searchsorted_right_def take_at_def error_vector_half_example
        sum_importances_def const_regressor_def regressor0_def Let_def)

theorem regression_discards_poor_learner_unless_sole_witness:
  "([1 / 2, 1 / 2] \<noteq> ([] :: real list)
      \<and> sum_list [1 / 2, 1 / 2 :: real] \<noteq> 0
      \<and> [0, 0] =
          map (searchsorted_right
                 (map (\<lambda>c. c / last (cumsum [1 / 2, 1 / 2])) (cumsum [1 / 2, 1 / 2])))
            (random_sample (regressor0 0 (Suc 0)) 0 (length [(), ()]))
      \<and> collect (map (take_at [(), ()]) [0, 0]) = Inr [(), ()]
      \<and> collect (map (take_at [0, 1 :: real]) [0, 0]) = Inr [0, 0]
      \<and> wl_fit const_regressor (base_estimator (regressor0 0 (Suc 0))) [(), ()] [0, 0] None
          = Inr 0
      \<and> error_vector (loss (regressor0 0 (Suc 0))) (map (wl_predict const_regressor 0) [(), ()])
           [0, 1] = Inr [0, 1]
      \<and> sum_list (map2 (*) [1 / 2, 1 / 2] [0, 1 :: real]) \<ge> 0.5
      \<and> (\<exists>st'. boost_regressor const_regressor 0 [(), ()] [0, 1] [1 / 2, 1 / 2]
                   (regressor0 0 (Suc 0)) = (Inr None, st')
               \<and> boost_loop (boost_regressor const_regressor) [0] [(), ()] [0, 1]
                    [1 / 2, 1 / 2] (regressor0 0 (Suc 0)) = (Inr (), st')
               \<and> estimators st' = [0]))
   \<and> (fit_regressor const_regressor [(), ()] [0, 1] None (regressor0 0 (Suc 0))
        = (Inr (), (regressor0 0 (Suc 0))\<lparr>estimators := [0]\<rparr>)
      \<and> 0 < n_estimators (regressor0 0 (Suc 0))
      \<and> estimators ((regressor0 0 (Suc 0))\<lparr>estimators := [0 :: real]\<rparr>) \<noteq> [])"
proof -
  have h1: "[1 / 2, 1 / 2] \<noteq> ([] :: real list)"
    by simp
  have h1': "sum_list [1 / 2, 1 / 2 :: real] \<noteq> 0"
    by simp
  have h2: "[0, 0] =
          map (searchsorted_right
                 (map (\<lambda>c. c / last (cumsum [1 / 2, 1 / 2])) (cumsum [1 / 2, 1 / 2])))
            (random_sample (regressor0 0 (Suc 0)) 0 (length [(), ()]))"
    by (simp add: cumsum_def searchsorted_right_def regressor0_def)
  have h3: "collect (map (take_at [(), ()]) [0, 0]) = Inr [(), ()]"
    by (simp add: take_at_def)
  have h4: "collect (map (take_at [0, 1 :: real]) [0, 0]) = Inr [0, 0]"
    by (simp add: take_at_def)
  have h5: "wl_fit const_regressor (base_estimator (regressor0 0 (Suc 0))) [(), ()] [0, 0] None
          = Inr 0"
    by (simp add: const_regressor_def regressor0_def)
  have h6: "error_vector (loss (regressor0 0 (Suc 0)))
              (map (wl_predict const_regressor 0) [(), ()]) [0, 1] = Inr [0, 1]"
    by (simp add: const_regressor_def regressor0_def error_vector_half_example)
  have h7: "sum_list (map2 (*) [1 / 2, 1 / 2] [0, 1 :: real]) \<ge> 0.5"
    by simp
  have h8: "0 < n_estimators (regressor0 0 (Suc 0))"
    by (simp add: regressor0_def)
  have e: "estimators (regressor0 0 (Suc 0)) = []"
    by (simp add: regressor0_def)
  show ?thesis
    using regression_discards_poor_learner_unless_sole
            [where sample_weight = "[1 / 2, 1 / 2]" and bootstrap_idx = "[0, 0]"
               and st = "regressor0 0 (Suc 0)" and iboost = 0 and X = "[(), ()]"
               and X_boot = "[(), ()]" and y = "[0, 1]" and y_boot = "[0, 0]"
               and L = const_regressor and estimator = 0 and error_vect = "[0, 1]"
               and rest = "[]" and ?sample_weight0.0 = None
               and st'' = "(regressor0 0 (Suc 0))\<lparr>estimators := [0]\<rparr>"]
          h1 h1' h2 h3 h4 h5 h6 h7 h8 sole_member_fit_example
    by (simp only: e) simp
qed

subsection \<open>What the sole-member exception records\<close>

lemma sum_importances_members:
  "estimators (snd (sum_importances L st)) = estimators st
   \<and> estimator_weights (snd (sum_importances L st)) = estimator_weights st
   \<and> estimator_errors (snd (sum_importances L st)) = estimator_errors st"
  by (simp add: sum_importances_def Let_def)

lemma sum_list_replicate_zero: "sum_list (replicate n (0::real)) = 0"
  by (induction n) simp_all

lemma init_sample_weight_sum:
  assumes "init_sample_weight n sample_weight = Inr sample_weight0"
  shows "sample_weight0 \<noteq> [] \<and> sum_list sample_weight0 = 1"
proof (cases sample_weight)
  case None
  then have "0 < n" and "sample_weight0 = replicate n (1 / real n)"
    using assms by (auto simp: init_sample_weight_def split: if_splits)
  then show ?thesis
    by (simp add: sum_list_replicate)
next
  case (Some sw)
  then have "sum_list (map (\<lambda>w. w / sum_list sw) sw) > 0"
      and "sample_weight0 = map (\<lambda>w. w / sum_list sw) sw"
    using assms by (auto simp: init_sample_weight_def Let_def split: if_splits)
  then show ?thesis
    by (cases "sum_list sw = 0") (auto simp: sum_list_divide)
qed

text \<open>
  C10. When the first boosting iteration of a regression \<^verbatim>\<open>fit\<close> (the arguments
  pass validation, among them the base estimator accepts the
  \<^verbatim>\<open>compute_importances\<close> setting when it is asked for, and at least one iteration
  is allowed) has \<^verbatim>\<open>estimator_error\<close> at least 0.5, the ensemble after \<^verbatim>\<open>fit\<close> is the one learner of that iteration, and
  \<^verbatim>\<open>estimator_weights_\<close> and \<^verbatim>\<open>estimator_errors_\<close> are as they were initialized:
  the member's recorded weight is 0, its recorded error is 1, and the estimator
  weights sum to 0.
\<close>

theorem sole_member_records_no_weight:
  assumes "wl_is_regressor L"
      and "loss st = ''linear'' \<or> loss st = ''square'' \<or> loss st = ''exponential''"
      and "0 < learning_rate st"
      and "set_importance_param L st = Inr st0"
      and "length X = length y"
      and "0 < n_estimators st"
      and "init_sample_weight (length X) sample_weight = Inr sample_weight0"
      and "bootstrap_idx =
             map (searchsorted_right
                    (map (\<lambda>c. c / last (cumsum sample_weight0)) (cumsum sample_weight0)))
               (random_sample st 0 (length X))"
      and "collect (map (take_at X) bootstrap_idx) = Inr X_boot"
      and "collect (map (take_at y) bootstrap_idx) = Inr y_boot"
      and "wl_fit L (base_estimator st0) X_boot y_boot None = Inr estimator"
      and "error_vector (loss st) (map (wl_predict L estimator) X) y = Inr error_vect"
      and "sum_list (map2 (*) sample_weight0 error_vect) \<ge> 0.5"
      and "st' = snd (fit_regressor L X y sample_weight st)"
  shows "estimators st' = [estimator]
         \<and> estimator_weights st' = replicate (n_estimators st) 0
         \<and> estimator_errors st' = replicate (n_estimators st) 1
         \<and> estimator_weights st' ! 0 = 0
         \<and> estimator_errors st' ! 0 = 1
         \<and> sum_list (estimator_weights st') = 0"
proof -
  obtain b where st0: "st0 = st\<lparr>base_estimator := b\<rparr>"
    using set_importance_param_Inr [OF assms(4)] by blast
  let ?st1 = "st0\<lparr>estimators := [], estimator_weights := replicate (n_estimators st0) 0,
                   estimator_errors := replicate (n_estimators st0) 1\<rparr>"
  let ?st2 = "?st1\<lparr>estimators := (if estimators ?st1 = [] then [estimator]
                                     else estimators ?st1)\<rparr>"
  have idx: "[0..<n_estimators st0] = 0 # [1..<n_estimators st0]"
    using assms(6) by (simp add: upt_conv_Cons st0)
  have w0: "sample_weight0 \<noteq> []" "sum_list sample_weight0 \<noteq> 0"
    using init_sample_weight_sum [OF assms(7)] by simp_all
  have b: "boost_regressor L 0 X y sample_weight0 ?st1 = (Inr None, ?st2)"
    using assms(8-13)
    by (intro boost_regressor_poor_learner [OF w0, where bootstrap_idx = bootstrap_idx
                and X_boot = X_boot and y_boot = y_boot and error_vect = error_vect])
       (simp_all add: st0)
  have l: "boost_loop (boost_regressor L) [0..<n_estimators st0] X y sample_weight0 ?st1
           = (Inr (), ?st2)"
    by (simp only: idx boost_loop.simps boost_iteration_def b) simp
  have f: "fit_regressor L X y sample_weight st = sum_importances L ?st2"
    using assms(1-3,5,7) l
    by (auto simp: fit_regressor_def fit_def assms(4) check_arrays_def Let_def)
  have "estimators st' = [estimator]"
       "estimator_weights st' = replicate (n_estimators st) 0"
       "estimator_errors st' = replicate (n_estimators st) 1"
    by (simp_all add: assms(14) f sum_importances_members) (simp_all add: st0)
  then show ?thesis
    using assms(6) by (simp add: sum_list_replicate_zero)
qed


theorem sole_member_records_no_weight_witness:
  "wl_is_regressor (const_regressor :: (real, unit, real) weak_learner)
   \<and> (loss (regressor0 0 2) = ''linear'' \<or> loss (regressor0 0 2) = ''square''
        \<or> loss (regressor0 0 2) = ''exponential'')
   \<and> 0 < learning_rate (regressor0 0 2)
   \<and> set_importance_param (const_regressor :: (real, unit, real) weak_learner)
        (regressor0 0 2) = Inr (regressor0 0 2)
   \<and> length [(), ()] = length [0, 1 :: real]
   \<and> 0 < n_estimators (regressor0 0 2)
   \<and> init_sample_weight (length [(), ()]) None = Inr [1 / 2, 1 / 2]
   \<and> [0, 0] =
        map (searchsorted_right
               (map (\<lambda>c. c / last (cumsum [1 / 2, 1 / 2])) (cumsum [1 / 2, 1 / 2])))
          (random_sample (regressor0 0 2) 0 (length [(), ()]))
   \<and> collect (map (take_at [(), ()]) [0, 0]) = Inr [(), ()]
   \<and> collect (map (take_at [0, 1 :: real]) [0, 0]) = Inr [0, 0]
   \<and> wl_fit const_regressor (base_estimator (regressor0 0 2)) [(), ()] [0, 0] None = Inr 0
   \<and> error_vector (loss (regressor0 0 2)) (map (wl_predict const_regressor 0) [(), ()])
        [0, 1] = Inr [0, 1]
   \<and> sum_list (map2 (*) [1 / 2, 1 / 2] [0, 1 :: real]) \<ge> 0.5
   \<and> estimators (snd (fit_regressor const_regressor [(), ()] [0, 1] None (regressor0 0 2)))
       = [0]
   \<and> estimator_weights
        (snd (fit_regressor const_regressor [(), ()] [0, 1] None (regressor0 0 2))) = [0, 0]
   \<and> estimator_errors
        (snd (fit_regressor const_regressor [(), ()] [0, 1] None (regressor0 0 2))) = [1, 1]
   \<and> sum_list (estimator_weights
        (snd (fit_regressor const_regressor [(), ()] [0, 1] None (regressor0 0 2)))) = 0"
proof -
  have h1: "wl_is_regressor (const_regressor :: (real, unit, real) weak_learner)"
    by (simp add: const_regressor_def)
  have h2: "loss (regressor0 0 2) = ''linear'' \<or> loss (regressor0 0 2) = ''square''
        \<or> loss (regressor0 0 2) = ''exponential''"
    by (simp add: regressor0_def)
  have h3: "0 < learning_rate (regressor0 0 2)"
    by (simp add: regressor0_def)
  have h3': "set_importance_param (const_regressor :: (real, unit, real) weak_learner)
        (regressor0 0 2) = Inr (regressor0 0 2)"
    by (simp add: set_importance_param_def regressor0_def)
  have h4: "length [(), ()] = length [0, 1 :: real]"
    by simp
  have h5: "0 < n_estimators (regressor0 0 2)"
    by (simp add: regressor0_def)
  have h6: "init_sample_weight (length [(), ()]) None = Inr [1 / 2, 1 / 2]"
    by (simp add: init_sample_weight_def numeral_2_eq_2)
  have h8: "[0, 0] =
        map (searchsorted_right
               (map (\<lambda>c. c / last (cumsum [1 / 2, 1 / 2])) (cumsum [1 / 2, 1 / 2])))
          (random_sample (regressor0 0 2) 0 (length [(), ()]))"
    by (simp add: cumsum_def searchsorted_right_def regressor0_def)
  have h9: "collect (map (take_at [(), ()]) [0, 0]) = Inr [(), ()]"
    by (simp add: take_at_def)
  have h10: "collect (map (take_at [0, 1 :: real]) [0, 0]) = Inr [0, 0]"
    by (simp add: take_at_def)
  have h11: "wl_fit const_regressor (base_estimator (regressor0 0 2)) [(), ()] [0, 0] None
             = Inr 0"
    by (simp add: const_regressor_def regressor0_def)
  have h12: "error_vector (loss (regressor0 0 2)) (map (wl_predict const_regressor 0) [(), ()])
        [0, 1] = Inr [0, 1]"
    by (simp add: const_regressor_def regressor0_def error_vector_half_example)
  have h13: "sum_list (map2 (*) [1 / 2, 1 / 2] [0, 1 :: real]) \<ge> 0.5"
    by simp
  have n: "replicate (n_estimators (regressor0 0 2)) (0::real) = [0, 0]"
          "replicate (n_estimators (regressor0 0 2)) (1::real) = [1, 1]"
    by (simp_all add: regressor0_def numeral_2_eq_2)
  show ?thesis
    using sole_member_records_no_weight
            [OF h1 h2 h3 h3' h4 h5 h6 h8 h9 h10 h11 h12 h13 refl]
          h1 h2 h3 h3' h4 h5 h6 h8 h9 h10 h11 h12
    by (simp only: n) simp
qed

subsection \<open>Supplied sample weights with a non-positive sum\<close>

text \<open>
  Supplied weights with a negative sum pass the test of \<^verbatim>\<open>fit\<close>: it is made after
  the division by the sum, when the weights sum to 1.
\<close>

lemma init_sample_weight_negative_sum:
  assumes "sum_list sw < 0"
  shows "init_sample_weight n (Some sw) = Inr (map (\<lambda>w. w / sum_list sw) sw)"
  using assms by (auto simp: init_sample_weight_def Let_def sum_list_divide)

text \<open>
  C6 fails on the code. The supplied weights \<open>[-1, -1]\<close> sum to \<open>-2\<close>; \<^verbatim>\<open>fit\<close>
  normalizes them to \<open>[1/2, 1/2]\<close>, raises nothing, and runs the boosting loop: it
  returns normally with the learner of the first iteration in the ensemble.
\<close>

theorem fit_accepts_negative_weight_sum:
  "sum_list [- 1, - 1 :: real] \<le> 0
   \<and> init_sample_weight (length [(), ()]) (Some [- 1, - 1]) = Inr [1 / 2, 1 / 2]
   \<and> fit_regressor const_regressor [(), ()] [0, 1] (Some [- 1, - 1]) (regressor0 0 (Suc 0))
       = (Inr (), (regressor0 0 (Suc 0))\<lparr>estimators := [0]\<rparr>)"
  by (simp add: fit_regressor_def fit_def set_importance_param_def
        check_arrays_def init_sample_weight_def
        boost_iteration_def boost_regressor_def make_estimator_def store_fitted_def
        cumsum_def searchsorted_right_def take_at_def error_vector_half_example
        sum_importances_def const_regressor_def regressor0_def Let_def)

subsection \<open>Staged predictions end in the prediction\<close>














subsection \<open>What \<^verbatim>\<open>predict_proba\<close> depends on\<close>

lemma proba_loop_members:
  "map snd members = map snd members' \<Longrightarrow>
   proba_loop L n_cls X members proba = proba_loop L n_cls X members' proba"
proof (induction members arbitrary: members' proba)
  case Nil
  then show ?case by simp
next
  case (Cons m members)
  then obtain m' rest where m': "members' = m' # rest" "snd m = snd m'"
                              "map snd members = map snd rest"
    by (cases members') auto
  obtain w e w' where "m = (w, e)" "m' = (w', e)"
    using m'(2) by (cases m, cases m') auto
  then show ?case
    using Cons.IH [OF m'(3)] by (simp add: m'(1) split: sum.splits)
qed

lemma staged_proba_loop_members:
  "map snd members = map snd members' \<Longrightarrow>
   staged_proba_loop L n_cls X members proba = staged_proba_loop L n_cls X members' proba"
proof (induction members arbitrary: members' proba)
  case Nil
  then show ?case by simp
next
  case (Cons m members)
  then obtain m' rest where m': "members' = m' # rest" "snd m = snd m'"
                              "map snd members = map snd rest"
    by (cases members') auto
  obtain w e w' where "m = (w, e)" "m' = (w', e)"
    using m'(2) by (cases m, cases m') auto
  then show ?case
    using Cons.IH [OF m'(3)] by (simp add: m'(1) Let_def split: sum.splits)
qed

lemma zip_weights_members:
  "length ws = length ws' \<Longrightarrow> map snd (zip ws es) = map snd (zip ws' es)"
  by (simp add: map_snd_zip_take)

lemma predict_proba_ignores_weights:
  assumes "length ws = length (estimator_weights st)"
  shows "predict_proba L (st\<lparr>algorithm := alg, estimator_weights := ws\<rparr>) X
         = predict_proba L st X"
    and "staged_predict_proba L (st\<lparr>algorithm := alg, estimator_weights := ws\<rparr>) X
         = staged_predict_proba L st X"
proof -
  have a: "proba_loop L (n_classes st) X (zip ws (estimators st)) None
           = proba_loop L (n_classes st) X (zip (estimator_weights st) (estimators st)) None"
    by (rule proba_loop_members [OF zip_weights_members [OF assms]])
  have b: "staged_proba_loop L (n_classes st) X (zip ws (estimators st)) None
           = staged_proba_loop L (n_classes st) X (zip (estimator_weights st) (estimators st))
               None"
    by (rule staged_proba_loop_members [OF zip_weights_members [OF assms]])
  show "predict_proba L (st\<lparr>algorithm := alg, estimator_weights := ws\<rparr>) X
        = predict_proba L st X"
    by (simp add: predict_proba_def a split: sum.splits option.splits)
  show "staged_predict_proba L (st\<lparr>algorithm := alg, estimator_weights := ws\<rparr>) X
        = staged_predict_proba L st X"
    by (simp add: staged_predict_proba_def b)
qed

lemma predict_proba_needs_method:
  assumes "wl_predict_proba L = None" and "estimators st \<noteq> []"
      and "estimator_weights st \<noteq> []"
  shows "predict_proba L st X = Inl AttributeError"
    and "staged_predict_proba L st X = Inl AttributeError"
proof -
  obtain w ws e es where "estimator_weights st = w # ws" "estimators st = e # es"
    using assms(2,3) by (cases "estimator_weights st"; cases "estimators st") auto
  then show "predict_proba L st X = Inl AttributeError"
    and "staged_predict_proba L st X = Inl AttributeError"
    using assms(1)
    by (simp_all add: predict_proba_def staged_predict_proba_def samme_proba_def)
qed

subsection \<open>Predicting with an empty ensemble\<close>

text \<open>
  The entry points that test \<^verbatim>\<open>if not self.estimators_\<close> raise the
  "is not initialized" \<open>RuntimeError\<close> on an empty ensemble.
\<close>

lemma not_fitted_checked:
  assumes "estimators st = []" and "estimators st' = []"
  shows "decision_function L st X = Inl RuntimeError"
    and "staged_decision_function L st X = Inl RuntimeError"
    and "predict_classifier L st X = Inl RuntimeError"
    and "staged_predict_classifier L st X = Inl RuntimeError"
    and "predict_regressor L' st' X' = Inl RuntimeError"
  using assms
  by (simp_all add: decision_function_def staged_decision_function_def
        predict_classifier_def staged_predict_classifier_def predict_regressor_def
        get_median_predict_def)

lemma empty_ensemble_fit_example:
  "fit_classifier proba_classifier [(), ()] [0, 1] None (classifier0 0 ''SAMME'' 2)
   = (Inr (), (classifier0 0 ''SAMME'' 2)\<lparr>classes := [0, 1], n_classes := 2\<rparr>)"
  by (simp add: fit_classifier_def fit_def set_importance_param_def
        check_arrays_def init_sample_weight_def
        boost_iteration_def boost_classifier_def boost_discrete_def make_estimator_def
        store_fitted_def set_classes_def pop_estimator_def average_def sum_importances_def
        proba_classifier_def const_classifier_def classifier0_def Let_def upt_rec
        numeral_2_eq_2)

text \<open>
  C8 fails on the code. A SAMME \<^verbatim>\<open>fit\<close> whose first learner is no better than
  chance returns normally with an empty ensemble. On it \<^verbatim>\<open>predict_proba\<close> makes no
  test: the loop leaves \<^verbatim>\<open>proba\<close> at \<^verbatim>\<open>None\<close> and the product with it raises
  \<open>TypeError\<close>, not the "is not initialized" \<open>RuntimeError\<close>;
  \<^verbatim>\<open>staged_predict_proba\<close> yields nothing and raises nothing. The regressor's
  \<^verbatim>\<open>staged_predict\<close> on an empty ensemble yields nothing and raises nothing either.
\<close>

theorem predict_proba_on_empty_ensemble:
  "fit_classifier proba_classifier [(), ()] [0, 1] None (classifier0 0 ''SAMME'' 2)
   = (Inr (), (classifier0 0 ''SAMME'' 2)\<lparr>classes := [0, 1], n_classes := 2\<rparr>)
   \<and> estimators ((classifier0 0 ''SAMME'' 2)\<lparr>classes := [0, 1], n_classes := 2\<rparr>) = []
   \<and> predict_proba proba_classifier
        ((classifier0 0 ''SAMME'' 2)\<lparr>classes := [0, 1], n_classes := 2\<rparr>) [()]
       = Inl TypeError
   \<and> staged_predict_proba proba_classifier
        ((classifier0 0 ''SAMME'' 2)\<lparr>classes := [0, 1], n_classes := 2\<rparr>) [()]
       = Inr []
   \<and> estimators (regressor0 0 2) = []
   \<and> staged_predict_regressor const_regressor (regressor0 0 2) [()] = Inr []"
  using empty_ensemble_fit_example
  by (simp add: predict_proba_def staged_predict_proba_def staged_predict_regressor_def
        classifier0_def regressor0_def)

subsection \<open>The ensemble after a failed \<^verbatim>\<open>fit\<close>\<close>












subsection \<open>The members' contributions to \<^verbatim>\<open>predict_proba\<close>\<close>

lemma samme_proba_rows:
  assumes "wl_predict_proba L = Some pp" and "K \<noteq> 0"
  shows "samme_proba L m K X = Inr (map (\<lambda>x. samme_r_transform K (pp m x)) X)"
  using assms
  by (simp add: samme_proba_def samme_r_transform_def displace_def Let_def comp_def)

lemma add_matrices_rows:
  "add_matrices (map f X) (map g X) = map (\<lambda>x. add_vectors (f x) (g x)) X"
  by (induction X) (simp_all add: add_matrices_def add_vectors_def)

lemma sum_vectors_foldl: "sum_vectors (v # vs) = foldl add_vectors v vs"
  by (induction vs arbitrary: v) simp_all

lemma real_proba_rows:
  "real_proba K (map g X) = map (\<lambda>x. class_probabilities K (g x)) X"
  by (simp add: real_proba_def class_probabilities_def Let_def comp_def)

lemma proba_loop_rows:
  assumes "wl_predict_proba L = Some pp" and "K \<noteq> 0"
  shows "proba_loop L K X ms (Some (map f X))
         = Inr (Some (map (\<lambda>x. foldl add_vectors (f x)
                                  (map (\<lambda>m. samme_r_transform K (pp m x)) (map snd ms))) X))"
proof (induction ms arbitrary: f)
  case Nil
  then show ?case by simp
next
  case (Cons wm ms)
  obtain w m where wm: "wm = (w, m)"
    by (cases wm)
  show ?case
    using Cons.IH [of "\<lambda>x. add_vectors (f x) (samme_r_transform K (pp m x))"]
    by (simp add: wm samme_proba_rows [OF assms] add_pred_def add_matrices_rows)
qed

lemma staged_proba_loop_rows:
  assumes "wl_predict_proba L = Some pp" and "K \<noteq> 0" and "K \<noteq> 1"
  shows "staged_proba_loop L K X ms (Some (map f X))
         = Inr (map (\<lambda>k. map (\<lambda>x. class_probabilities K
                                     (foldl add_vectors (f x)
                                        (map (\<lambda>m. samme_r_transform K (pp m x))
                                           (take (Suc k) (map snd ms))))) X)
                  [0..<length ms])"
proof (induction ms arbitrary: f)
  case Nil
  then show ?case by simp
next
  case (Cons wm ms)
  obtain w m where wm: "wm = (w, m)"
    by (cases wm)
  have idx: "[0..<length (wm # ms)] = 0 # map Suc [0..<length ms]"
    by (simp add: upt_conv_Cons map_Suc_upt del: upt_Suc)
  show ?case
    using Cons.IH [of "\<lambda>x. add_vectors (f x) (samme_r_transform K (pp m x))"] assms(3)
    by (simp only: idx)
       (simp add: wm samme_proba_rows [OF assms(1,2)] add_pred_def add_matrices_rows
          real_proba_rows Let_def comp_def)
qed


lemma predict_proba_rows:
  assumes "wl_predict_proba L = Some pp"
      and "members = map snd (zip (estimator_weights st) (estimators st))"
      and "members \<noteq> []"
      and "n_classes st \<noteq> 0" and "n_classes st \<noteq> 1"
  shows "predict_proba L st X
         = Inr (map (\<lambda>x. class_probabilities (n_classes st)
                         (sum_vectors (map (\<lambda>m. samme_r_transform (n_classes st) (pp m x))
                                         members))) X)"
    and "staged_predict_proba L st X
         = Inr (map (\<lambda>k. map (\<lambda>x. class_probabilities (n_classes st)
                                  (sum_vectors
                                     (map (\<lambda>m. samme_r_transform (n_classes st) (pp m x))
                                        (take (Suc k) members)))) X)
                  [0..<length members])"
proof -
  let ?K = "n_classes st"
  obtain w0 m0 rest where z: "zip (estimator_weights st) (estimators st) = (w0, m0) # rest"
    using assms(2,3) by (cases "zip (estimator_weights st) (estimators st)") auto
  then have members: "members = m0 # map snd rest"
    by (simp add: assms(2))
  have first: "samme_proba L m0 ?K X = Inr (map (\<lambda>x. samme_r_transform ?K (pp m0 x)) X)"
    by (rule samme_proba_rows [OF assms(1,4)])
  show "predict_proba L st X
         = Inr (map (\<lambda>x. class_probabilities ?K
                         (sum_vectors (map (\<lambda>m. samme_r_transform ?K (pp m x)) members))) X)"
    using assms(5)
    by (simp add: predict_proba_def z first add_pred_def proba_loop_rows [OF assms(1,4)]
          real_proba_rows members sum_vectors_foldl)
  have idx: "[0..<length members] = 0 # map Suc [0..<length rest]"
    by (simp add: members upt_conv_Cons map_Suc_upt del: upt_Suc)
  show "staged_predict_proba L st X
         = Inr (map (\<lambda>k. map (\<lambda>x. class_probabilities ?K
                                  (sum_vectors (map (\<lambda>m. samme_r_transform ?K (pp m x))
                                                  (take (Suc k) members)))) X)
                  [0..<length members])"
    using assms(5)
    by (simp only: idx)
       (simp add: staged_predict_proba_def z first add_pred_def
          staged_proba_loop_rows [OF assms(1,4,5)] real_proba_rows members sum_vectors_foldl
          comp_def)
qed


lemma samme_r_transform_example:
  "samme_r_transform 2 [1 / 3, 2 / 3] = [- (ln 2 / 2), ln 2 / 2]"
proof -
  have a: "ln (1 / 3 :: real) = - ln 3"
    by (simp add: ln_div)
  have b: "ln (2 / 3 :: real) = ln 2 - ln 3"
    by (simp add: ln_div)
  show ?thesis
    by (simp add: samme_r_transform_def Let_def a b) (simp add: field_simps)
qed

lemma class_probabilities_example:
  "class_probabilities 2 (add_vectors [- (ln 2 / 2), ln 2 / 2] [- (ln 2 / 2), ln 2 / 2])
   = [1 / 5, 4 / 5]"
proof -
  have h: "exp (- ln (2 :: real)) = 1 / 2"
    by (simp add: exp_minus inverse_eq_divide)
  show ?thesis
    by (simp add: class_probabilities_def add_vectors_def Let_def h)
qed


lemma class_probabilities_single_example:
  "class_probabilities 2 [- (ln 2 / 2), ln 2 / 2] = [1 / 3, 2 / 3]"
proof -
  define r :: real where "r = exp (ln 2 / 2)"
  have pos: "0 < r"
    by (simp add: r_def)
  have "r * r = exp (ln 2 / 2 + ln 2 / 2)"
    unfolding r_def by (rule exp_add [symmetric])
  then have sq: "r * r = 2"
    by simp
  have inv: "exp (- (ln 2 / 2)) = 1 / r"
    by (simp add: r_def exp_minus inverse_eq_divide)
  have "1 / r + r = 3 / r"
    using pos sq by (simp add: field_simps)
  then have "(1 / r) / (1 / r + r) = 1 / 3" and "r / (1 / r + r) = 2 / 3"
    using pos sq by (simp_all add: field_simps)
  moreover have "1 / r + r \<noteq> 0"
  proof -
    have "0 < 1 / r + r"
      using pos by (intro add_pos_pos) simp_all
    then show ?thesis
      by simp
  qed
  ultimately show ?thesis
    by (simp add: class_probabilities_def Let_def inv flip: r_def)
qed


text \<open>
  C9. On a non-empty ensemble whose weak learner has a \<^verbatim>\<open>predict_proba\<close> method
  (and more than one class), \<^verbatim>\<open>predict_proba\<close> is, for every sample, the
  normalized exponential of the sum over the members of the SAMME.R
  log-probability transform of the member's class probabilities, and
  \<^verbatim>\<open>staged_predict_proba\<close> is the same for every prefix of the members: neither
  \<^verbatim>\<open>algorithm\<close> nor an estimator weight occurs in it. So both are unchanged when
  \<^verbatim>\<open>algorithm\<close> and the values of \<^verbatim>\<open>estimator_weights_\<close> are replaced (by an array
  of the same length), and both raise \<open>AttributeError\<close> on a non-empty ensemble
  when the weak learner has no \<^verbatim>\<open>predict_proba\<close> method, under every algorithm,
  \<^verbatim>\<open>'SAMME'\<close> included.
\<close>

theorem predict_proba_is_samme_r_of_members:
  "(wl_predict_proba L = Some pp
      \<and> members = map snd (zip (estimator_weights st) (estimators st))
      \<and> members \<noteq> [] \<and> n_classes st \<noteq> 0 \<and> n_classes st \<noteq> 1
    \<longrightarrow> predict_proba L st X
          = Inr (map (\<lambda>x. class_probabilities (n_classes st)
                          (sum_vectors
                             (map (\<lambda>m. samme_r_transform (n_classes st) (pp m x)) members)))
                   X)
        \<and> staged_predict_proba L st X
          = Inr (map (\<lambda>k. map (\<lambda>x. class_probabilities (n_classes st)
                                   (sum_vectors
                                      (map (\<lambda>m. samme_r_transform (n_classes st) (pp m x))
                                         (take (Suc k) members)))) X)
                   [0..<length members]))
   \<and> (length ws = length (estimator_weights st)
      \<longrightarrow> predict_proba L (st\<lparr>algorithm := alg, estimator_weights := ws\<rparr>) X
            = predict_proba L st X
          \<and> staged_predict_proba L (st\<lparr>algorithm := alg, estimator_weights := ws\<rparr>) X
            = staged_predict_proba L st X)
   \<and> (wl_predict_proba L = None \<and> estimators st \<noteq> [] \<and> estimator_weights st \<noteq> []
      \<longrightarrow> predict_proba L st X = Inl AttributeError
          \<and> staged_predict_proba L st X = Inl AttributeError)"
proof (intro conjI impI; (elim conjE)?)
  assume a: "wl_predict_proba L = Some pp"
    "members = map snd (zip (estimator_weights st) (estimators st))"
    "members \<noteq> []" "n_classes st \<noteq> 0" "n_classes st \<noteq> 1"
  show "predict_proba L st X
          = Inr (map (\<lambda>x. class_probabilities (n_classes st)
                          (sum_vectors
                             (map (\<lambda>m. samme_r_transform (n_classes st) (pp m x)) members)))
                   X)"
    by (rule predict_proba_rows(1) [OF a])
  show "staged_predict_proba L st X
          = Inr (map (\<lambda>k. map (\<lambda>x. class_probabilities (n_classes st)
                                   (sum_vectors
                                      (map (\<lambda>m. samme_r_transform (n_classes st) (pp m x))
                                         (take (Suc k) members)))) X)
                   [0..<length members])"
    by (rule predict_proba_rows(2) [OF a])
next
  assume "length ws = length (estimator_weights st)"
  then show "predict_proba L (st\<lparr>algorithm := alg, estimator_weights := ws\<rparr>) X
            = predict_proba L st X"
    and "staged_predict_proba L (st\<lparr>algorithm := alg, estimator_weights := ws\<rparr>) X
            = staged_predict_proba L st X"
    by (rule predict_proba_ignores_weights)+
next
  assume "wl_predict_proba L = None" "estimators st \<noteq> []" "estimator_weights st \<noteq> []"
  then show "predict_proba L st X = Inl AttributeError"
    and "staged_predict_proba L st X = Inl AttributeError"
    by (rule predict_proba_needs_method)+
qed

theorem predict_proba_is_samme_r_of_members_witness:
  "wl_predict_proba (soft_classifier :: (nat \<times> nat list, unit, nat) weak_learner)
     = Some (\<lambda>m x. [1 / 3, 2 / 3])
   \<and> [(0, [0, 1]), (1, [0, 1])]
      = map snd (zip (estimator_weights
                        (fitted_classifier ''SAMME'' [0, 1] [(0, [0, 1]), (1, [0, 1])] [1, 2]))
                     (estimators
                        (fitted_classifier ''SAMME'' [0, 1] [(0, [0, 1]), (1, [0, 1])] [1, 2])))
   \<and> [(0 :: nat, [0, 1 :: nat]), (1, [0, 1])] \<noteq> []
   \<and> n_classes (fitted_classifier ''SAMME'' [0, 1] [(0, [0, 1]), (1, [0, 1])] [1, 2]) \<noteq> 0
   \<and> n_classes (fitted_classifier ''SAMME'' [0, 1] [(0, [0, 1]), (1, [0, 1])] [1, 2]) \<noteq> 1
   \<and> predict_proba soft_classifier
       (fitted_classifier ''SAMME'' [0, 1] [(0, [0, 1]), (1, [0, 1])] [1, 2]) [()]
      = Inr [[1 / 5, 4 / 5]]
   \<and> staged_predict_proba soft_classifier
       (fitted_classifier ''SAMME'' [0, 1] [(0, [0, 1]), (1, [0, 1])] [1, 2]) [()]
      = Inr [[[1 / 3, 2 / 3]], [[1 / 5, 4 / 5]]]
   \<and> length [5, 7 :: real]
      = length (estimator_weights
          (fitted_classifier ''SAMME'' [0, 1] [(0, [0, 1]), (1, [0, 1])] [1, 2]))
   \<and> predict_proba soft_classifier
       ((fitted_classifier ''SAMME'' [0, 1] [(0, [0, 1]), (1, [0, 1])] [1, 2])
          \<lparr>algorithm := ''SAMME.R'', estimator_weights := [5, 7]\<rparr>) [()]
      = Inr [[1 / 5, 4 / 5]]
   \<and> wl_predict_proba (const_classifier :: (nat \<times> nat list, unit, nat) weak_learner) = None
   \<and> estimators (fitted_classifier ''SAMME'' [0, 1] [(0, [0, 1]), (1, [0, 1])] [1, 2]) \<noteq> []
   \<and> estimator_weights (fitted_classifier ''SAMME'' [0, 1] [(0, [0, 1]), (1, [0, 1])] [1, 2])
       \<noteq> []
   \<and> predict_proba const_classifier
       (fitted_classifier ''SAMME'' [0, 1] [(0, [0, 1]), (1, [0, 1])] [1, 2]) [()]
      = Inl AttributeError
   \<and> staged_predict_proba const_classifier
       (fitted_classifier ''SAMME'' [0, 1] [(0, [0, 1]), (1, [0, 1])] [1, 2]) [()]
      = Inl AttributeError"
proof -
  let ?st = "fitted_classifier ''SAMME'' [0, 1] [(0, [0, 1]), (1, [0, 1])] [1, 2]"
  let ?members = "[(0 :: nat, [0, 1 :: nat]), (1, [0, 1])]"
  have h1: "wl_predict_proba (soft_classifier :: (nat \<times> nat list, unit, nat) weak_learner)
            = Some (\<lambda>m x. [1 / 3, 2 / 3])"
    by (simp add: soft_classifier_def const_classifier_def)
  have h2: "?members = map snd (zip (estimator_weights ?st) (estimators ?st))"
    by (simp add: fitted_classifier_def)
  have h3: "?members \<noteq> []"
    by simp
  have h4: "n_classes ?st \<noteq> 0" "n_classes ?st \<noteq> 1"
    by (simp_all add: fitted_classifier_def)
  have k: "n_classes ?st = 2"
    by (simp add: fitted_classifier_def)
  have h5: "length [5, 7 :: real] = length (estimator_weights ?st)"
    by (simp add: fitted_classifier_def)
  have h6: "wl_predict_proba (const_classifier :: (nat \<times> nat list, unit, nat) weak_learner)
            = None"
    by (simp add: const_classifier_def)
  have h7: "estimators ?st \<noteq> []" "estimator_weights ?st \<noteq> []"
    by (simp_all add: fitted_classifier_def)
  have idx: "[0..<length ?members] = [0, 1]"
    by (simp add: upt_rec)
  note a = predict_proba_is_samme_r_of_members
             [where L = soft_classifier and pp = "\<lambda>m x. [1 / 3, 2 / 3]" and st = ?st
                and members = ?members and X = "[()]" and ws = "[5, 7]"
                and alg = "''SAMME.R''"]
  note c = predict_proba_is_samme_r_of_members
             [where L = const_classifier and st = ?st and X = "[()]"
                and ws = "[5, 7]" and alg = "''SAMME.R''"]
  have p: "predict_proba soft_classifier ?st [()] = Inr [[1 / 5, 4 / 5]]"
    using a h1 h2 h4
    by (simp only: k) (simp add: samme_r_transform_example class_probabilities_example)
  have s: "staged_predict_proba soft_classifier ?st [()]
           = Inr [[[1 / 3, 2 / 3]], [[1 / 5, 4 / 5]]]"
    using a h1 h2 h4
    by (simp only: k idx)
       (simp add: samme_r_transform_example class_probabilities_example
          class_probabilities_single_example)
  have w: "predict_proba soft_classifier
             (?st\<lparr>algorithm := ''SAMME.R'', estimator_weights := [5, 7]\<rparr>) [()]
           = Inr [[1 / 5, 4 / 5]]"
    using a h5 p by simp
  have n: "predict_proba const_classifier ?st [()] = Inl AttributeError"
          "staged_predict_proba const_classifier ?st [()] = Inl AttributeError"
    using c h6 h7 by simp_all
  show ?thesis
    using h1 h2 h4 h5 h6 h7 p s w n by simp
qed

end
